theory Spec2Isabelle
  imports Main "HOL-Library.Sublist"
begin

section \<open>Python strings\<close>

text \<open>
  The gateway of \<^verbatim>\<open>src/app.py\<close> is glue around library calls, so the embedding starts
  with the few string operations the handler uses.  A \<^typ>\<open>char\<close> stands for a code
  point below 256 (the range of an HTTP header decoded as Latin-1); on that range
  \<^verbatim>\<open>str.lower\<close> adds 32 to the capital letters \<^verbatim>\<open>A-Z\<close> and to the accented capitals
  192..222 except the multiplication sign 215, and \<^verbatim>\<open>str.strip\<close> removes the characters
  for which \<^verbatim>\<open>str.isspace\<close> holds: 9..13, 28..32, 133 and 160.
\<close>

definition py_isspace :: "char \<Rightarrow> bool" where
  "py_isspace c =
     (let n = (of_char c :: nat)
      in (9 \<le> n \<and> n \<le> 13) \<or> (28 \<le> n \<and> n \<le> 32) \<or> n = 133 \<or> n = 160)"

definition py_isupper :: "char \<Rightarrow> bool" where
  "py_isupper c =
     (let n = (of_char c :: nat)
      in (65 \<le> n \<and> n \<le> 90) \<or> (192 \<le> n \<and> n \<le> 222 \<and> n \<noteq> 215))"

definition lower_char :: "char \<Rightarrow> char" where
  "lower_char c = (if py_isupper c then char_of ((of_char c :: nat) + 32) else c)"

definition py_lower :: "string \<Rightarrow> string" where
  "py_lower s = map lower_char s"

definition py_strip :: "string \<Rightarrow> string" where
  "py_strip s = rev (dropWhile py_isspace (rev (dropWhile py_isspace s)))"

fun startswith :: "string \<Rightarrow> string \<Rightarrow> bool" where
  "startswith s [] = True"
| "startswith [] (p # ps) = False"
| "startswith (c # cs) (p # ps) = (c = p \<and> startswith cs ps)"

text \<open>\<^verbatim>\<open>s.partition(sep)\<close> for a one-character separator.\<close>

definition py_partition :: "char \<Rightarrow> string \<Rightarrow> string \<times> string \<times> string" where
  "py_partition sep s =
     (if sep \<in> set s
      then (takeWhile (\<lambda>c. c \<noteq> sep) s, [sep], tl (dropWhile (\<lambda>c. c \<noteq> sep) s))
      else (s, [], []))"

definition is_ascii :: "string \<Rightarrow> bool" where
  "is_ascii s = list_all (\<lambda>c. (of_char c :: nat) < 128) s"

definition digit_char :: "nat \<Rightarrow> char" where
  "digit_char d = char_of (48 + d)"

function show_nat :: "nat \<Rightarrow> string" where
  "show_nat n = (if n < 10 then [digit_char n] else show_nat (n div 10) @ [digit_char (n mod 10)])"
  by pat_completeness auto
termination
  by (relation "measure (\<lambda>n. n)") auto

text \<open>\<^verbatim>\<open>"%0wd" % n\<close> for a natural number \<open>n\<close>.\<close>

definition zero_pad :: "nat \<Rightarrow> nat \<Rightarrow> string" where
  "zero_pad w n = replicate (w - length (show_nat n)) (CHR ''0'') @ show_nat n"

definition apostrophe :: char where
  "apostrophe = CHR 0x27"

section \<open>Exceptions\<close>

text \<open>
  Every raise of the source is a value.  \<open>HTTPException status detail headers\<close> is
  FastAPI's exception; \<open>PyError cls msg\<close> is any other \<^verbatim>\<open>Exception\<close>, with its class name
  and the text \<^verbatim>\<open>str(e)\<close>.  \<^verbatim>\<open>str\<close> of an \<^verbatim>\<open>HTTPException\<close> is the framework's
  \<^verbatim>\<open>f"{status_code}: {detail}"\<close>.
\<close>

datatype exn =
    HTTPException nat string "(string \<times> string) list"
  | PyError string string

fun str_exn :: "exn \<Rightarrow> string" where
  "str_exn (HTTPException status detail headers) = show_nat status @ '': '' @ detail"
| "str_exn (PyError cls msg) = msg"

section \<open>Authentication: \<^verbatim>\<open>verify_api_key\<close>\<close>

definition AUTH_MISSING_HEADER_MSG :: string where
  "AUTH_MISSING_HEADER_MSG = ''Missing Authorization header''"

definition AUTH_INVALID_SCHEME_MSG :: string where
  "AUTH_INVALID_SCHEME_MSG =
     ''Invalid auth scheme, use '' @ [apostrophe] @ ''Bearer <token>'' @ [apostrophe]"

definition AUTH_INVALID_KEY_MSG :: string where
  "AUTH_INVALID_KEY_MSG = ''Invalid API key''"

text \<open>
  \<^verbatim>\<open>secrets.compare_digest\<close> on two \<^verbatim>\<open>str\<close> arguments compares them when both are
  ASCII and raises \<^verbatim>\<open>TypeError\<close> otherwise.
\<close>

definition compare_digest :: "string \<Rightarrow> string \<Rightarrow> exn + bool" where
  "compare_digest a b =
     (if is_ascii a \<and> is_ascii b then Inr (a = b)
      else Inl (PyError ''TypeError''
                  ''comparing strings with non-ASCII characters is not supported''))"

text \<open>
  The argument \<open>auth\<close> is \<^verbatim>\<open>request.headers.get("Authorization")\<close>: \<open>None\<close> when the
  header is absent.  \<^verbatim>\<open>if not auth\<close> holds for \<open>None\<close> and for the empty string.
\<close>

definition verify_api_key :: "string \<Rightarrow> string option \<Rightarrow> exn + unit" where
  "verify_api_key api_key auth =
     (case auth of
        None \<Rightarrow>
          Inl (HTTPException 401 AUTH_MISSING_HEADER_MSG [(''WWW-Authenticate'', ''Bearer'')])
      | Some a \<Rightarrow>
          if a = [] then
            Inl (HTTPException 401 AUTH_MISSING_HEADER_MSG [(''WWW-Authenticate'', ''Bearer'')])
          else
            (case py_partition (CHR '' '') a of
               (scheme, _, token) \<Rightarrow>
                 if py_lower scheme \<noteq> ''bearer'' \<or> token = [] then
                   Inl (HTTPException 401 AUTH_INVALID_SCHEME_MSG
                          [(''WWW-Authenticate'', ''Bearer'')])
                 else
                   (case compare_digest token api_key of
                      Inl e \<Rightarrow> Inl e
                    | Inr same \<Rightarrow>
                        if \<not> same then Inl (HTTPException 403 AUTH_INVALID_KEY_MSG [])
                        else Inr ())))"

section \<open>Row values\<close>

text \<open>
  A result row is a Python \<^verbatim>\<open>dict\<close> from column names to scalars, kept as an association
  list in column order.  The scalars are the ones the two drivers hand over.

  A \<open>decimal\<close> is \<^verbatim>\<open>decimal.Decimal\<close>: \<open>Decimal c e\<close> is the finite number \<open>c * 10^e\<close>,
  the other two are the special values \<^verbatim>\<open>Infinity\<close> (with its sign) and \<^verbatim>\<open>NaN\<close>.
  A \<open>pyfloat\<close> is an IEEE binary64: \<open>Nearest c e\<close> is the finite binary64 number nearest
  to \<open>c * 10^e\<close> (every finite binary64 number has this form), kept symbolic.
\<close>

datatype decimal = Decimal int int | DecimalInfinity bool | DecimalNaN

datatype pyfloat = Nearest int int | Infinity bool | NaN

record date =
  year :: nat
  month :: nat
  day :: nat

record time_of_day =
  hour :: nat
  minute :: nat
  second :: nat
  microsecond :: nat
  utcoffset :: "int option"

datatype "value" =
    VNull
  | VBool bool
  | VInt int
  | VFloat pyfloat
  | VStr string
  | VDecimal decimal
  | VDate date
  | VDateTime date time_of_day
  | VTime time_of_day
  | VBytes string
  | VOther string

type_synonym row = "(string \<times> value) list"

text \<open>
  \<^verbatim>\<open>isoformat()\<close> of the \<^verbatim>\<open>datetime\<close> module: \<^verbatim>\<open>YYYY-MM-DD\<close>,
  \<^verbatim>\<open>HH:MM:SS[.ffffff][+HH:MM[:SS]]\<close>, and the two joined by \<^verbatim>\<open>T\<close>.  The UTC offset is
  in whole seconds.
\<close>

definition date_isoformat :: "date \<Rightarrow> string" where
  "date_isoformat d =
     zero_pad 4 (year d) @ ''-'' @ zero_pad 2 (month d) @ ''-'' @ zero_pad 2 (day d)"

definition format_offset :: "int option \<Rightarrow> string" where
  "format_offset off =
     (case off of
        None \<Rightarrow> []
      | Some s \<Rightarrow>
          (let a = nat \<bar>s\<bar>; hh = a div 3600; mm = (a mod 3600) div 60; ss = a mod 60
           in (if s < 0 then ''-'' else ''+'') @ zero_pad 2 hh @ '':'' @ zero_pad 2 mm
              @ (if ss \<noteq> 0 then '':'' @ zero_pad 2 ss else [])))"

definition time_isoformat :: "time_of_day \<Rightarrow> string" where
  "time_isoformat t =
     zero_pad 2 (hour t) @ '':'' @ zero_pad 2 (minute t) @ '':'' @ zero_pad 2 (second t)
     @ (if microsecond t \<noteq> 0 then ''.'' @ zero_pad 6 (microsecond t) else [])
     @ format_offset (utcoffset t)"

definition datetime_isoformat :: "date \<Rightarrow> time_of_day \<Rightarrow> string" where
  "datetime_isoformat d t = date_isoformat d @ ''T'' @ time_isoformat t"

text \<open>
  \<^verbatim>\<open>float(obj)\<close> on a \<^verbatim>\<open>Decimal\<close> rounds to the nearest binary64 number; a finite decimal
  of magnitude at least \<open>2^1024 - 2^970\<close> (half-way between the largest binary64 number and
  \<open>2^1024\<close>) rounds to an infinity, and the special values map to themselves.
\<close>

definition float_overflows :: "int \<Rightarrow> int \<Rightarrow> bool" where
  "float_overflows c e =
     (if 0 \<le> e then 2 ^ 1024 - 2 ^ 970 \<le> \<bar>c\<bar> * 10 ^ nat e
      else (2 ^ 1024 - 2 ^ 970) * 10 ^ nat (- e) \<le> \<bar>c\<bar>)"

fun float_of_decimal :: "decimal \<Rightarrow> pyfloat" where
  "float_of_decimal (Decimal c e) = (if float_overflows c e then Infinity (c < 0) else Nearest c e)"
| "float_of_decimal (DecimalInfinity neg) = Infinity neg"
| "float_of_decimal DecimalNaN = NaN"

fun isfinite :: "pyfloat \<Rightarrow> bool" where
  "isfinite (Nearest c e) = True"
| "isfinite (Infinity neg) = False"
| "isfinite NaN = False"

section \<open>JSON encoding: \<^verbatim>\<open>DateTimeEncoder\<close>\<close>

datatype json =
    JNull
  | JBool bool
  | JInt int
  | JFloat pyfloat
  | JStr string
  | JList "json list"
  | JObj "(string \<times> json) list"

fun type_name :: "value \<Rightarrow> string" where
  "type_name VNull = ''NoneType''"
| "type_name (VBool b) = ''bool''"
| "type_name (VInt i) = ''int''"
| "type_name (VFloat f) = ''float''"
| "type_name (VStr s) = ''str''"
| "type_name (VDecimal d) = ''Decimal''"
| "type_name (VDate d) = ''date''"
| "type_name (VDateTime d t) = ''datetime''"
| "type_name (VTime t) = ''time''"
| "type_name (VBytes b) = ''bytes''"
| "type_name (VOther cls) = cls"

text \<open>The scalars \<^verbatim>\<open>json\<close> encodes by itself, without calling \<^verbatim>\<open>default\<close>.\<close>

fun native_json :: "value \<Rightarrow> json option" where
  "native_json VNull = Some JNull"
| "native_json (VBool b) = Some (JBool b)"
| "native_json (VInt i) = Some (JInt i)"
| "native_json (VFloat f) = Some (JFloat f)"
| "native_json (VStr s) = Some (JStr s)"
| "native_json v = None"

text \<open>
  \<^verbatim>\<open>DateTimeEncoder.default\<close>: the three \<^verbatim>\<open>isinstance\<close> branches in the order of the
  source, then \<^verbatim>\<open>super().default(obj)\<close>, which raises \<^verbatim>\<open>TypeError\<close>.  The method
  returns a \<^verbatim>\<open>str\<close> or a \<^verbatim>\<open>float\<close>, which the encoder then writes as it writes any
  native scalar; the model returns that JSON value.
\<close>

fun DateTimeEncoder_default :: "value \<Rightarrow> exn + json" where
  "DateTimeEncoder_default (VDate d) = Inr (JStr (date_isoformat d))"
| "DateTimeEncoder_default (VDateTime d t) = Inr (JStr (datetime_isoformat d t))"
| "DateTimeEncoder_default (VTime t) = Inr (JStr (time_isoformat t))"
| "DateTimeEncoder_default (VDecimal d) = Inr (JFloat (float_of_decimal d))"
| "DateTimeEncoder_default obj =
     Inl (PyError ''TypeError''
            (''Object of type '' @ type_name obj @ '' is not JSON serializable''))"

text \<open>
  \<^verbatim>\<open>json.loads(json.dumps(v, cls=DateTimeEncoder, ensure_ascii=False))\<close> on one scalar:
  the JSON text in between is not modelled, only the value that comes back.  The first
  \<^verbatim>\<open>dumps\<close> runs with \<^verbatim>\<open>allow_nan=True\<close>, so \<^verbatim>\<open>NaN\<close> and the infinities pass through it.
\<close>

definition dumps_value :: "value \<Rightarrow> exn + json" where
  "dumps_value v =
     (case native_json v of
        Some j \<Rightarrow> Inr j
      | None \<Rightarrow> DateTimeEncoder_default v)"

text \<open>A loop that stops at the first exception.\<close>

fun collect :: "('a \<Rightarrow> exn + 'b) \<Rightarrow> 'a list \<Rightarrow> exn + 'b list" where
  "collect f [] = Inr []"
| "collect f (x # xs) =
     (case f x of
        Inl e \<Rightarrow> Inl e
      | Inr y \<Rightarrow> (case collect f xs of Inl e \<Rightarrow> Inl e | Inr ys \<Rightarrow> Inr (y # ys)))"

definition dumps_row :: "row \<Rightarrow> exn + json" where
  "dumps_row r =
     (case collect (\<lambda>(k, v). case dumps_value v of Inl e \<Rightarrow> Inl e | Inr j \<Rightarrow> Inr (k, j)) r of
        Inl e \<Rightarrow> Inl e
      | Inr kvs \<Rightarrow> Inr (JObj kvs))"

text \<open>
  \<^verbatim>\<open>response_data = {"rows": rows, "truncated": truncated}\<close>, through
  \<^verbatim>\<open>json.dumps\<close> and \<^verbatim>\<open>json.loads\<close>.
\<close>

definition dumps_response_data :: "row list \<Rightarrow> bool \<Rightarrow> exn + json" where
  "dumps_response_data rows truncated =
     (case collect dumps_row rows of
        Inl e \<Rightarrow> Inl e
      | Inr js \<Rightarrow> Inr (JObj [(''rows'', JList js), (''truncated'', JBool truncated)]))"

text \<open>
  \<^verbatim>\<open>JSONResponse(content=...)\<close> renders its content when it is built, with
  \<^verbatim>\<open>allow_nan=False\<close>: a float that is not finite raises \<^verbatim>\<open>ValueError\<close>.
\<close>

fun floats_finite :: "json \<Rightarrow> bool" where
  "floats_finite (JFloat f) = isfinite f"
| "floats_finite (JList xs) = list_all floats_finite xs"
| "floats_finite (JObj kvs) = list_all (\<lambda>kv. floats_finite (snd kv)) kvs"
| "floats_finite j = True"

section \<open>CSV encoding: \<^verbatim>\<open>csv.DictWriter\<close>\<close>

text \<open>
  The writer of the \<^verbatim>\<open>csv\<close> module with its default dialect: fields joined by a comma,
  a field quoted when it holds a comma, a double quote, a carriage return or a line feed
  (a double quote inside is doubled), a record of one empty field written as two double
  quotes, and every record ended by \<^verbatim>\<open>\r\n\<close>.
\<close>

definition dquote :: char where
  "dquote = CHR 0x22"

definition CRLF :: string where
  "CRLF = [CHR 0x0D, CHR 0x0A]"

definition csv_quote_field :: "string \<Rightarrow> string" where
  "csv_quote_field s =
     (if list_ex (\<lambda>c. c = CHR '','' \<or> c = dquote \<or> c = CHR 0x0D \<or> c = CHR 0x0A) s
      then [dquote] @ concat (map (\<lambda>c. if c = dquote then [dquote, dquote] else [c]) s) @ [dquote]
      else s)"

fun join :: "string \<Rightarrow> string list \<Rightarrow> string" where
  "join sep [] = []"
| "join sep [x] = x"
| "join sep (x # y # ys) = x @ sep @ join sep (y # ys)"

definition csv_writerow :: "string list \<Rightarrow> string" where
  "csv_writerow cells =
     (if cells = [[]] then [dquote, dquote] else join '','' (map csv_quote_field cells)) @ CRLF"

text \<open>
  A field is written as \<^verbatim>\<open>''\<close> for \<^verbatim>\<open>None\<close>, as itself for a \<^verbatim>\<open>str\<close>, and as
  \<^verbatim>\<open>str(field)\<close> (\<^verbatim>\<open>repr\<close> for a float) otherwise; that last conversion is the
  parameter \<open>str_of\<close>.
\<close>

fun csv_field :: "(value \<Rightarrow> string) \<Rightarrow> value \<Rightarrow> string" where
  "csv_field str_of VNull = []"
| "csv_field str_of (VStr s) = s"
| "csv_field str_of v = str_of v"

text \<open>
  \<^verbatim>\<open>DictWriter._dict_to_list\<close> with \<^verbatim>\<open>extrasaction='raise'\<close> and \<^verbatim>\<open>restval=''\<close>: a key
  of the row that is not a field name raises \<^verbatim>\<open>ValueError\<close>; a field name missing from
  the row is written as the empty string.
\<close>

definition dict_to_list :: "string list \<Rightarrow> row \<Rightarrow> exn + value list" where
  "dict_to_list fieldnames rowdict =
     (let wrong_fields = filter (\<lambda>k. k \<notin> set fieldnames) (map fst rowdict)
      in if wrong_fields \<noteq> [] then
           Inl (PyError ''ValueError''
                  (''dict contains fields not in fieldnames: ''
                   @ join '', '' (map (\<lambda>k. [apostrophe] @ k @ [apostrophe]) wrong_fields)))
         else
           Inr (map (\<lambda>key. case map_of rowdict key of None \<Rightarrow> VStr [] | Some v \<Rightarrow> v) fieldnames))"

text \<open>
  Lines 320 to 324: the buffer stays empty for no rows; otherwise the field names are
  the keys of the first row, \<^verbatim>\<open>writeheader\<close> writes them and \<^verbatim>\<open>writerows\<close> writes
  every row.  The value is \<^verbatim>\<open>csv_buffer.getvalue()\<close>.
\<close>

definition csv_buffer_value :: "(value \<Rightarrow> string) \<Rightarrow> row list \<Rightarrow> exn + string" where
  "csv_buffer_value str_of csv_rows =
     (case csv_rows of
        [] \<Rightarrow> Inr []
      | first # _ \<Rightarrow>
          (let fieldnames = map fst first
           in case collect (dict_to_list fieldnames) csv_rows of
                Inl e \<Rightarrow> Inl e
              | Inr records \<Rightarrow>
                  Inr (csv_writerow fieldnames
                       @ concat (map (\<lambda>vs. csv_writerow (map (csv_field str_of) vs)) records))))"

section \<open>The world of one request\<close>

text \<open>
  What the handler does beyond computing a value is written into an explicit \<open>world\<close>:
  the files on disk and the trace of the calls it makes, in order.  What the outside
  answers (the pools, the drivers, the file system) is the \<open>env\<close>, one answer per call;
  an answer is an exception or a result.  A connection is named by a number.
\<close>

type_synonym conn = nat

datatype db_type = PostgreSQL | MySQL

datatype level = DEBUG | INFO | ERROR

datatype event =
    Acquire string conn
  | SetExecutionTime conn
  | Execute conn string
  | Commit conn
  | Fetch conn string
  | Release string conn
  | Log level string

record world =
  files :: "string \<rightharpoonup> string"
  trace :: "event list"

definition emit :: "event \<Rightarrow> world \<Rightarrow> world" where
  "emit e w = w\<lparr>trace := trace w @ [e]\<rparr>"

text \<open>
  \<open>db_pools\<close> is \<^verbatim>\<open>app.state.db_pools\<close> as startup left it (a pool is named by its key),
  \<open>pool_acquire\<close> the outcome of \<^verbatim>\<open>pool.acquire()\<close>, \<open>set_execution_time\<close> of the
  \<^verbatim>\<open>SET SESSION MAX_EXECUTION_TIME\<close> statement, \<open>db_execute\<close> and \<open>db_commit\<close> of the
  acknowledge path, \<open>db_fetch\<close> of the row path (\<^verbatim>\<open>execute\<close> and \<^verbatim>\<open>fetchall\<close>, or
  \<^verbatim>\<open>fetch\<close>, with the rows already as dicts), \<open>pool_release\<close> of \<^verbatim>\<open>pool.release(conn)\<close>,
  \<open>temp_file\<close> the path \<^verbatim>\<open>NamedTemporaryFile\<close> creates, \<open>temp_write\<close> the outcome of
  writing to it, \<open>os_remove\<close> of \<^verbatim>\<open>os.remove\<close>, \<open>rate_limit_exceeded\<close> the limiter's
  verdict, and \<open>py_str\<close> is \<^verbatim>\<open>str\<close> on a scalar.
\<close>

record env =
  db_pools :: "string \<rightharpoonup> db_type"
  pool_acquire :: "string \<Rightarrow> exn + conn"
  set_execution_time :: "conn \<Rightarrow> exn option"
  db_execute :: "conn \<Rightarrow> string \<Rightarrow> exn option"
  db_commit :: "conn \<Rightarrow> exn option"
  db_fetch :: "conn \<Rightarrow> string \<Rightarrow> exn + row list"
  pool_release :: "string \<Rightarrow> conn \<Rightarrow> exn option"
  temp_file :: "exn + string"
  temp_write :: "string \<Rightarrow> exn option"
  os_remove :: "string \<Rightarrow> exn option"
  rate_limit_exceeded :: bool
  py_str :: "value \<Rightarrow> string"

text \<open>
  The configuration read from the environment: the API key, and the two row caps as
  \<^verbatim>\<open>os.getenv\<close> finds them (\<open>None\<close> when the variable is not set, an integer otherwise).
\<close>

record config =
  API_KEY :: string
  MAX_JSON_ROWS :: "int option"
  MAX_CSV_ROWS :: "int option"
  CSV_FILENAME :: string

definition QUERY_SUCCESS_MSG :: string where
  "QUERY_SUCCESS_MSG = ''Query executed successfully''"

definition RATE_LIMIT_MESSAGE :: string where
  "RATE_LIMIT_MESSAGE =
     ''Rate limit exceeded. Please try again later or contact your administrator.''"

text \<open>
  What a handler or a middleware returns: a plain dict (serialised by the framework),
  a \<^verbatim>\<open>JSONResponse\<close> with its status, content and headers, a \<^verbatim>\<open>FileResponse\<close> with its
  path, file name, media type and headers, the plain-text answer of the server's last
  resort, and the streaming wrapper \<^verbatim>\<open>call_next\<close> of an http middleware returns around
  the response of the inner application.
\<close>

datatype response =
    DictResponse "(string \<times> json) list"
  | JSONResponse nat json "(string \<times> string) list"
  | FileResponse string string string "(string \<times> string) list"
  | PlainTextResponse nat string
  | StreamingResponse response

section \<open>Creating the pools: \<^verbatim>\<open>startup_create_pools\<close>\<close>







section \<open>Acquiring a connection: \<^verbatim>\<open>create_async_connection\<close>\<close>

definition NO_POOL_MSG :: "string \<Rightarrow> string" where
  "NO_POOL_MSG cloud = ''No pool configured for cloud '' @ [apostrophe] @ cloud @ [apostrophe]"

definition create_async_connection ::
  "env \<Rightarrow> string \<Rightarrow> world \<Rightarrow> (exn + conn \<times> db_type) \<times> world" where
  "create_async_connection env cloud w =
     (case db_pools env cloud of
        None \<Rightarrow> (Inl (HTTPException 500 (NO_POOL_MSG cloud) []), w)
      | Some MySQL \<Rightarrow>
          (case pool_acquire env cloud of
             Inl e \<Rightarrow> (Inl e, w)
           | Inr conn \<Rightarrow>
               (let w1 = emit (SetExecutionTime conn) (emit (Acquire cloud conn) w)
                in case set_execution_time env conn of
                     None \<Rightarrow> (Inr (conn, MySQL), w1)
                   | Some e \<Rightarrow>
                       (Inr (conn, MySQL),
                        emit (Log DEBUG (''MAX_EXECUTION_TIME not supported; ''
                                         @ ''continuing without per-statement timeout'')) w1)))
      | Some PostgreSQL \<Rightarrow>
          (case pool_acquire env cloud of
             Inl e \<Rightarrow> (Inl e, w)
           | Inr conn \<Rightarrow> (Inr (conn, PostgreSQL), emit (Acquire cloud conn) w)))"

section \<open>The handler: \<^verbatim>\<open>sqlquery\<close>\<close>

text \<open>Lines 274 to 281: the classification of the statement.\<close>

definition is_data_query :: "string \<Rightarrow> bool" where
  "is_data_query sql =
     (let query_lower = py_lower (py_strip sql)
      in startswith query_lower ''select'' \<or>
         startswith query_lower ''show'' \<or>
         startswith query_lower ''describe'' \<or>
         startswith query_lower ''explain'' \<or>
         startswith query_lower ''with'')"

text \<open>Lines 282 to 289: a statement that returns no data is executed and acknowledged.\<close>

definition execute_and_acknowledge ::
  "env \<Rightarrow> conn \<Rightarrow> db_type \<Rightarrow> string \<Rightarrow> world \<Rightarrow> (exn + response) \<times> world" where
  "execute_and_acknowledge env connection dbt sql w =
     (if dbt = MySQL then
        (let w1 = emit (Execute connection sql) w
         in case db_execute env connection sql of
              Some e \<Rightarrow> (Inl e, w1)
            | None \<Rightarrow>
                (let w2 = emit (Commit connection) w1
                 in case db_commit env connection of
                      Some e \<Rightarrow> (Inl e, w2)
                    | None \<Rightarrow> (Inr (DictResponse [(''status'', JStr QUERY_SUCCESS_MSG)]), w2)))
      else
        (let w1 = emit (Execute connection sql) w
         in case db_execute env connection sql of
              Some e \<Rightarrow> (Inl e, w1)
            | None \<Rightarrow> (Inr (DictResponse [(''status'', JStr QUERY_SUCCESS_MSG)]), w1)))"

text \<open>
  Lines 291 to 299: all rows are fetched.  The two drivers differ in the call
  (\<^verbatim>\<open>DictCursor\<close> and \<^verbatim>\<open>fetchall\<close>, or \<^verbatim>\<open>fetch\<close> and \<^verbatim>\<open>dict(r)\<close>), not in what comes back.
\<close>

definition fetch_all_rows ::
  "env \<Rightarrow> conn \<Rightarrow> db_type \<Rightarrow> string \<Rightarrow> world \<Rightarrow> (exn + row list) \<times> world" where
  "fetch_all_rows env connection dbt sql w =
     (db_fetch env connection sql, emit (Fetch connection sql) w)"

text \<open>\<^verbatim>\<open>rows[:n]\<close> for a Python integer \<open>n\<close>: a negative \<open>n\<close> counts from the end.\<close>

definition py_slice_to :: "int \<Rightarrow> 'a list \<Rightarrow> 'a list" where
  "py_slice_to n xs = (if 0 \<le> n then take (nat n) xs else take (nat (int (length xs) + n)) xs)"

definition max_json_rows :: "config \<Rightarrow> int" where
  "max_json_rows cfg = (case MAX_JSON_ROWS cfg of None \<Rightarrow> 10000 | Some n \<Rightarrow> n)"

definition max_csv_rows :: "config \<Rightarrow> int" where
  "max_csv_rows cfg = (case MAX_CSV_ROWS cfg of None \<Rightarrow> 1000000 | Some n \<Rightarrow> n)"

text \<open>Lines 302 to 310: the JSON answer.\<close>

definition render_json :: "config \<Rightarrow> row list \<Rightarrow> exn + response" where
  "render_json cfg rows =
     (let truncated = (max_json_rows cfg < int (length rows));
          rows' = (if truncated then py_slice_to (max_json_rows cfg) rows else rows)
      in case dumps_response_data rows' truncated of
           Inl e \<Rightarrow> Inl e
         | Inr content \<Rightarrow>
             if floats_finite content then Inr (JSONResponse 200 content [])
             else Inl (PyError ''ValueError''
                         ''Out of range float values are not JSON compliant''))"

text \<open>
  Lines 312 to 336: the CSV answer.  The temporary file is created with
  \<^verbatim>\<open>delete=False\<close>, so it stays on disk when the \<^verbatim>\<open>with\<close> block is left, also by an
  exception of the write.
\<close>

definition render_csv ::
  "config \<Rightarrow> env \<Rightarrow> row list \<Rightarrow> world \<Rightarrow> (exn + response) \<times> world" where
  "render_csv cfg env rows w =
     (let csv_rows = (if max_csv_rows cfg < int (length rows)
                      then py_slice_to (max_csv_rows cfg) rows else rows)
      in case csv_buffer_value (py_str env) csv_rows of
           Inl e \<Rightarrow> (Inl e, w)
         | Inr text \<Rightarrow>
             (case temp_file env of
                Inl e \<Rightarrow> (Inl e, w)
              | Inr temp_file_path \<Rightarrow>
                  (let w1 = w\<lparr>files := (files w)(temp_file_path \<mapsto> [])\<rparr>
                   in case temp_write env text of
                        Some e \<Rightarrow> (Inl e, w1)
                      | None \<Rightarrow>
                          (Inr (FileResponse temp_file_path (CSV_FILENAME cfg) ''text/csv''
                                  [(''Content-Disposition'',
                                    ''attachment; filename='' @ CSV_FILENAME cfg)]),
                           w1\<lparr>files := (files w1)(temp_file_path \<mapsto> text)\<rparr>))))"

text \<open>The body of the \<^verbatim>\<open>try\<close> block after the connection is there (lines 273 to 336).\<close>

definition run_query ::
  "config \<Rightarrow> env \<Rightarrow> conn \<Rightarrow> db_type \<Rightarrow> string \<Rightarrow> string \<Rightarrow> world \<Rightarrow> (exn + response) \<times> world"
  where
  "run_query cfg env connection dbt sql fmt w =
     (if \<not> is_data_query sql then execute_and_acknowledge env connection dbt sql w
      else
        (case fetch_all_rows env connection dbt sql w of
           (Inl e, w1) \<Rightarrow> (Inl e, w1)
         | (Inr rows, w1) \<Rightarrow>
             if fmt = ''json'' then (render_json cfg rows, w1)
             else render_csv cfg env rows w1))"

text \<open>
  The \<^verbatim>\<open>try\<close> block: the variable \<^verbatim>\<open>connection\<close> stays \<^verbatim>\<open>None\<close> when
  \<^verbatim>\<open>create_async_connection\<close> raises.
\<close>

definition try_block ::
  "config \<Rightarrow> env \<Rightarrow> string \<Rightarrow> string \<Rightarrow> string \<Rightarrow> world \<Rightarrow>
   conn option \<times> (exn + response) \<times> world" where
  "try_block cfg env sql cloud fmt w =
     (case create_async_connection env cloud w of
        (Inl e, w1) \<Rightarrow> (None, Inl e, w1)
      | (Inr (connection, dbt), w1) \<Rightarrow>
          (case run_query cfg env connection dbt sql fmt w1 of
             (r, w2) \<Rightarrow> (Some connection, r, w2)))"

text \<open>Lines 338 to 340: \<^verbatim>\<open>except Exception as e\<close>.\<close>

definition except_block :: "exn + response \<Rightarrow> world \<Rightarrow> (exn + response) \<times> world" where
  "except_block r w =
     (case r of
        Inl e \<Rightarrow>
          (Inl (HTTPException 500 (str_exn e) []),
           emit (Log ERROR (''Error executing query: '' @ str_exn e)) w)
      | Inr resp \<Rightarrow> (Inr resp, w))"

text \<open>Lines 341 to 353: \<^verbatim>\<open>finally\<close>.\<close>

definition finally_block :: "env \<Rightarrow> string \<Rightarrow> conn option \<Rightarrow> world \<Rightarrow> world" where
  "finally_block env cloud connection w =
     (case connection of
        None \<Rightarrow> w
      | Some c \<Rightarrow>
          (case db_pools env cloud of
             None \<Rightarrow> w
           | Some meta \<Rightarrow>
               (let w1 = emit (Log DEBUG (''Releasing pooled connection for cloud: '' @ cloud)) w;
                    w2 = emit (Release cloud c) w1
                in case pool_release env cloud c of
                     None \<Rightarrow> w2
                   | Some close_exc \<Rightarrow>
                       emit (Log ERROR (''Error while releasing connection for '' @ cloud
                                        @ '': '' @ str_exn close_exc)) w2)))"

definition INVALID_FORMAT_MSG :: string where
  "INVALID_FORMAT_MSG =
     ''Invalid format. Use '' @ [apostrophe] @ ''json'' @ [apostrophe] @ '' or ''
     @ [apostrophe] @ ''csv'' @ [apostrophe] @ ''.''"

text \<open>
  The handler.  Its arguments are the query parameters \<^verbatim>\<open>sqlquery\<close>, \<^verbatim>\<open>cloud\<close> and
  \<^verbatim>\<open>format\<close> (already \<^verbatim>\<open>"json"\<close> when the request gave none) and the URL for the log.
\<close>

definition sqlquery ::
  "config \<Rightarrow> env \<Rightarrow> string \<Rightarrow> string \<Rightarrow> string \<Rightarrow> string \<Rightarrow> world \<Rightarrow> (exn + response) \<times> world"
  where
  "sqlquery cfg env sql cloud format url w0 =
     (let w = emit (Log DEBUG (''Received API call: '' @ url
                               @ '' with cloud parameter: '' @ cloud)) w0;
          fmt = py_lower (if format = [] then ''json'' else format)
      in if fmt \<noteq> ''json'' \<and> fmt \<noteq> ''csv'' then
           (Inl (HTTPException 400 INVALID_FORMAT_MSG []), w)
         else
           (case try_block cfg env sql cloud fmt w of
              (connection, r, w1) \<Rightarrow>
                (case except_block r w1 of
                   (r', w2) \<Rightarrow> (r', finally_block env cloud connection w2))))"

section \<open>The route and the middleware\<close>

record request =
  req_url :: string
  req_authorization :: "string option"
  req_sqlquery :: string
  req_cloud :: string
  req_format :: "string option"

text \<open>
  The route: the dependency \<^verbatim>\<open>verify_api_key\<close> runs first, then the limiter's wrapper,
  then the handler.
\<close>

definition endpoint ::
  "config \<Rightarrow> env \<Rightarrow> request \<Rightarrow> world \<Rightarrow> (exn + response) \<times> world" where
  "endpoint cfg env req w =
     (case verify_api_key (API_KEY cfg) (req_authorization req) of
        Inl e \<Rightarrow> (Inl e, w)
      | Inr u \<Rightarrow>
          if rate_limit_exceeded env then
            (Inr (JSONResponse 429 (JObj [(''detail'', JStr RATE_LIMIT_MESSAGE)]) []), w)
          else
            sqlquery cfg env (req_sqlquery req) (req_cloud req)
              (case req_format req of None \<Rightarrow> ''json'' | Some f \<Rightarrow> f) (req_url req) w)"

text \<open>
  The framework turns what the route gives into a response: an \<^verbatim>\<open>HTTPException\<close> into
  a JSON body with its detail, a returned dict into a JSON body with status 200.  Any
  other exception is not handled there and travels on.
\<close>

definition exception_handlers :: "exn + response \<Rightarrow> exn + response" where
  "exception_handlers r =
     (case r of
        Inl (HTTPException status detail headers) \<Rightarrow>
          Inr (JSONResponse status (JObj [(''detail'', JStr detail)]) headers)
      | Inl (PyError cls msg) \<Rightarrow> Inl (PyError cls msg)
      | Inr (DictResponse d) \<Rightarrow> Inr (JSONResponse 200 (JObj d) [])
      | Inr resp \<Rightarrow> Inr resp)"

text \<open>
  \<^verbatim>\<open>call_next\<close> of a middleware registered with \<^verbatim>\<open>@app.middleware("http")\<close>: it runs
  the inner application and returns a streaming wrapper around its response (status,
  headers and a body stream), never the response object the handler built.
\<close>

definition call_next ::
  "(world \<Rightarrow> (exn + response) \<times> world) \<Rightarrow> world \<Rightarrow> (exn + response) \<times> world" where
  "call_next inner w =
     (case inner w of
        (Inl e, w1) \<Rightarrow> (Inl e, w1)
      | (Inr resp, w1) \<Rightarrow> (Inr (StreamingResponse resp), w1))"

text \<open>
  Lines 395 to 405.  The argument \<open>next\<close> is the \<^verbatim>\<open>call_next\<close> it is given; an
  exception of \<open>next\<close> leaves the middleware at once.
\<close>

definition remove_temp_file ::
  "env \<Rightarrow> string \<Rightarrow> (world \<Rightarrow> (exn + response) \<times> world) \<Rightarrow> world \<Rightarrow> (exn + response) \<times> world"
  where
  "remove_temp_file env request_url next w0 =
     (case next (emit (Log DEBUG (''Processing request: '' @ request_url)) w0) of
        (Inl e, w1) \<Rightarrow> (Inl e, w1)
      | (Inr resp, w1) \<Rightarrow>
          (case resp of
             FileResponse path filename media_type headers \<Rightarrow>
               if files w1 path \<noteq> None then
                 (case os_remove env path of
                    None \<Rightarrow>
                      (Inr resp,
                       emit (Log DEBUG (''Temporary file '' @ path @ '' removed successfully''))
                         (w1\<lparr>files := (files w1)(path := None)\<rparr>))
                  | Some e \<Rightarrow>
                      (Inr resp, emit (Log ERROR (''Error removing temp file: '' @ str_exn e)) w1))
               else (Inr resp, w1)
           | _ \<Rightarrow> (Inr resp, w1)))"

text \<open>
  The application around the route: the framework's exception handlers, then the
  middleware \<^verbatim>\<open>remove_temp_file\<close> (registered last, so outermost), and the server's last
  resort for an exception nothing handled.  The middleware \<^verbatim>\<open>log_request_headers\<close>
  between the two writes one log line and returns what its own \<^verbatim>\<open>call_next\<close> gave it;
  it is left out.
\<close>

definition app :: "config \<Rightarrow> env \<Rightarrow> request \<Rightarrow> world \<Rightarrow> response \<times> world" where
  "app cfg env req w =
     (case remove_temp_file env (req_url req)
             (call_next (\<lambda>w'. case endpoint cfg env req w' of
                                 (r, w'') \<Rightarrow> (exception_handlers r, w''))) w of
        (Inl e, w1) \<Rightarrow> (PlainTextResponse 500 ''Internal Server Error'', w1)
      | (Inr resp, w1) \<Rightarrow> (resp, w1))"

text \<open>
  Sending the response: the body of a file response is read from its path when it is
  sent; the transmission fails when the file is not there.  Sending changes no file.
\<close>

fun backing_file :: "response \<Rightarrow> string option" where
  "backing_file (FileResponse path filename media_type headers) = Some path"
| "backing_file (StreamingResponse resp) = backing_file resp"
| "backing_file resp = None"

definition transmit :: "response \<Rightarrow> world \<Rightarrow> bool \<times> world" where
  "transmit resp w =
     (case backing_file resp of
        None \<Rightarrow> (True, w)
      | Some path \<Rightarrow> (files w path \<noteq> None, w))"

section \<open>Observations on a run\<close>

text \<open>The events a run added to the trace, and the kinds of event the claims speak of.\<close>

definition events_since :: "world \<Rightarrow> world \<Rightarrow> event list" where
  "events_since w w' = drop (length (trace w)) (trace w')"

fun is_log :: "event \<Rightarrow> bool" where
  "is_log (Log l m) = True"
| "is_log e = False"

fun is_release :: "event \<Rightarrow> bool" where
  "is_release (Release cl c) = True"
| "is_release e = False"

fun on_row_path :: "event \<Rightarrow> bool" where
  "on_row_path (Fetch c sql) = True"
| "on_row_path e = False"

fun on_acknowledge_path :: "event \<Rightarrow> bool" where
  "on_acknowledge_path (Execute c sql) = True"
| "on_acknowledge_path (Commit c) = True"
| "on_acknowledge_path e = False"

definition db_calls :: "event list \<Rightarrow> event list" where
  "db_calls evs = filter (\<lambda>e. \<not> is_log e) evs"

text \<open>The formats line 261 and 262 let through.\<close>

definition accepted_format :: "string \<Rightarrow> bool" where
  "accepted_format format =
     (let fmt = py_lower (if format = [] then ''json'' else format)
      in fmt = ''json'' \<or> fmt = ''csv'')"

text \<open>The classification in the words of the specification.\<close>

definition data_keywords :: "string list" where
  "data_keywords = [''select'', ''show'', ''describe'', ''explain'', ''with'']"

definition spec_data_returning :: "string \<Rightarrow> bool" where
  "spec_data_returning sql = list_ex (\<lambda>k. prefix k (py_lower (py_strip sql))) data_keywords"

text \<open>What a response says about truncation, and the rows it returns.\<close>

fun reported_truncated :: "response \<Rightarrow> bool option" where
  "reported_truncated (JSONResponse status (JObj kvs) headers) =
     (case map_of kvs ''truncated'' of Some (JBool b) \<Rightarrow> Some b | _ \<Rightarrow> None)"
| "reported_truncated resp = None"

fun returned_rows :: "response \<Rightarrow> json list option" where
  "returned_rows (JSONResponse status (JObj kvs) headers) =
     (case map_of kvs ''rows'' of Some (JList js) \<Rightarrow> Some js | _ \<Rightarrow> None)"
| "returned_rows resp = None"

text \<open>
  The first line of the log, line 261 of the source, the world once the connection is
  there, and the two things a run of the handler leaves: its events and its outcome.
\<close>

definition received :: "string \<Rightarrow> string \<Rightarrow> event" where
  "received url cloud =
     Log DEBUG (''Received API call: '' @ url @ '' with cloud parameter: '' @ cloud)"

definition effective_format :: "string \<Rightarrow> string" where
  "effective_format format = py_lower (if format = [] then ''json'' else format)"

definition connected :: "env \<Rightarrow> string \<Rightarrow> string \<Rightarrow> world \<Rightarrow> world" where
  "connected env cloud url w =
     snd (create_async_connection env cloud (emit (received url cloud) w))"

definition events_of ::
  "config \<Rightarrow> env \<Rightarrow> string \<Rightarrow> string \<Rightarrow> string \<Rightarrow> string \<Rightarrow> world \<Rightarrow> event list" where
  "events_of cfg env sql cloud format url w =
     events_since w (snd (sqlquery cfg env sql cloud format url w))"

definition response_of ::
  "config \<Rightarrow> env \<Rightarrow> string \<Rightarrow> string \<Rightarrow> string \<Rightarrow> string \<Rightarrow> world \<Rightarrow> exn + response" where
  "response_of cfg env sql cloud format url w = fst (sqlquery cfg env sql cloud format url w)"

text \<open>The two parts of an \<^verbatim>\<open>Authorization\<close> header that \<^verbatim>\<open>verify_api_key\<close> looks at.\<close>

definition auth_scheme :: "string \<Rightarrow> string" where
  "auth_scheme h = fst (py_partition (CHR '' '') h)"

definition auth_token :: "string \<Rightarrow> string" where
  "auth_token h = snd (snd (py_partition (CHR '' '') h))"

section \<open>The answers in the words of the specification\<close>




text \<open>The row sequence after the cap of lines 303 to 305 and of line 317.\<close>

definition capped :: "int \<Rightarrow> 'a list \<Rightarrow> 'a list" where
  "capped cap rows = (if cap < int (length rows) then py_slice_to cap rows else rows)"

text \<open>
  The files a run of the handler leaves, the answer that carries a CSV file, and a CSV
  document as the specification describes it: one header record, then the data
  records, each written by the writer and so ended by \<^verbatim>\<open>\r\n\<close>.  A cell is the text
  of the row's value under a field name.
\<close>

definition files_after ::
  "config \<Rightarrow> env \<Rightarrow> string \<Rightarrow> string \<Rightarrow> string \<Rightarrow> string \<Rightarrow> world \<Rightarrow> string \<rightharpoonup> string" where
  "files_after cfg env sql cloud format url w = files (snd (sqlquery cfg env sql cloud format url w))"





definition csv_file_response :: "config \<Rightarrow> string \<Rightarrow> response" where
  "csv_file_response cfg path =
     FileResponse path (CSV_FILENAME cfg) ''text/csv''
       [(''Content-Disposition'', ''attachment; filename='' @ CSV_FILENAME cfg)]"



section \<open>A sample deployment\<close>

text \<open>
  Two configured backends, a driver that answers every statement, a pool whose release
  fails, and a cap of one row on CSV answers.  The theorems below are instantiated here.
\<close>

definition sample_env :: env where
  "sample_env =
     \<lparr>db_pools = [''neon_postgres'' \<mapsto> PostgreSQL, ''aiven_mysql'' \<mapsto> MySQL],
      pool_acquire = (\<lambda>cloud. Inr 7),
      set_execution_time = (\<lambda>c. None),
      db_execute = (\<lambda>c sql. None),
      db_commit = (\<lambda>c. None),
      db_fetch = (\<lambda>c sql. Inr [[(''x'', VInt 1)], [(''x'', VInt 2)]]),
      pool_release = (\<lambda>cloud c. Some (PyError ''InterfaceError'' ''pool is closed'')),
      temp_file = Inr ''/tmp/tmpab12.csv'',
      temp_write = (\<lambda>text. None),
      os_remove = (\<lambda>path. None),
      rate_limit_exceeded = False,
      py_str = (\<lambda>v. case v of
                       VInt i \<Rightarrow> (if i < 0 then ''-'' else []) @ show_nat (nat \<bar>i\<bar>)
                     | _ \<Rightarrow> [])\<rparr>"

definition sample_config :: config where
  "sample_config =
     \<lparr>API_KEY = ''s3cret'', MAX_JSON_ROWS = None, MAX_CSV_ROWS = Some 1,
      CSV_FILENAME = ''results.csv''\<rparr>"

definition fresh_world :: world where
  "fresh_world = \<lparr>files = Map.empty, trace = []\<rparr>"

definition sample_request :: request where
  "sample_request =
     \<lparr>req_url = ''/sqlquery/'', req_authorization = Some ''Bearer s3cret'',
      req_sqlquery = ''select 1'', req_cloud = ''neon_postgres'', req_format = None\<rparr>"

definition nan_env :: env where
  "nan_env = sample_env\<lparr>db_fetch := \<lambda>c sql. Inr [[(''price'', VDecimal DecimalNaN)]]\<rparr>"




definition roomy_config :: config where
  "roomy_config = sample_config\<lparr>MAX_JSON_ROWS := Some 1, MAX_CSV_ROWS := Some 5\<rparr>"

definition csv_request :: request where
  "csv_request = sample_request\<lparr>req_format := Some ''csv''\<rparr>"



definition failing_env :: env where
  "failing_env =
     sample_env\<lparr>db_fetch := \<lambda>c sql. Inl (PyError ''PostgresSyntaxError'' ''syntax error'')\<rparr>"

section \<open>Lemmas on the trace\<close>

lemma startswith_prefix: "startswith s p = prefix p s"
  by (induction s p rule: startswith.induct) auto


lemma trace_emit [simp]: "trace (emit e w) = trace w @ [e]"
  by (simp add: emit_def)

lemma files_emit [simp]: "files (emit e w) = files w"
  by (simp add: emit_def)

lemma events_since_append [simp]: "trace w' = trace w @ evs \<Longrightarrow> events_since w w' = evs"
  by (simp add: events_since_def)

lemma is_data_query_spec: "is_data_query sql = spec_data_returning sql"
  by (simp add: is_data_query_def spec_data_returning_def data_keywords_def startswith_prefix Let_def)

lemma trace_execute_and_acknowledge:
  "trace (snd (execute_and_acknowledge env c dbt sql w)) =
     trace w @ [Execute c sql]
     @ (if dbt = MySQL \<and> db_execute env c sql = None then [Commit c] else [])"
  by (simp add: execute_and_acknowledge_def Let_def split: option.splits)

lemma trace_render_csv: "trace (snd (render_csv cfg env rows w)) = trace w"
  by (simp add: render_csv_def Let_def split: sum.splits option.splits)

lemma trace_run_query:
  "trace (snd (run_query cfg env c dbt sql fmt w)) =
     trace w @ (if is_data_query sql then [Fetch c sql]
                else [Execute c sql]
                     @ (if dbt = MySQL \<and> db_execute env c sql = None then [Commit c] else []))"
  by (simp add: run_query_def fetch_all_rows_def trace_execute_and_acknowledge trace_render_csv
      split: sum.splits prod.splits)

lemma trace_except_block:
  "trace (snd (except_block r w)) =
     trace w @ (case r of Inl e \<Rightarrow> [Log ERROR (''Error executing query: '' @ str_exn e)] | Inr x \<Rightarrow> [])"
  by (simp add: except_block_def split: sum.splits)

lemma trace_finally_block:
  "trace (finally_block env cloud (Some c) w) =
     trace w @ (case db_pools env cloud of None \<Rightarrow> []
        | Some meta \<Rightarrow> [Log DEBUG (''Releasing pooled connection for cloud: '' @ cloud), Release cloud c]
            @ (case pool_release env cloud c of None \<Rightarrow> []
               | Some e \<Rightarrow> [Log ERROR (''Error while releasing connection for '' @ cloud @ '': '' @ str_exn e)]))"
  by (simp add: finally_block_def Let_def split: option.splits)

lemma sqlquery_rejected:
  "\<not> accepted_format format \<Longrightarrow>
   sqlquery cfg env sql cloud format url w =
     (Inl (HTTPException 400 INVALID_FORMAT_MSG []), emit (received url cloud) w)"
  by (simp add: sqlquery_def accepted_format_def received_def Let_def)

lemma sqlquery_no_pool:
  "accepted_format format \<Longrightarrow> db_pools env cloud = None \<Longrightarrow>
   sqlquery cfg env sql cloud format url w =
     (Inl (HTTPException 500 (str_exn (HTTPException 500 (NO_POOL_MSG cloud) [])) []),
      emit (Log ERROR (''Error executing query: '' @ str_exn (HTTPException 500 (NO_POOL_MSG cloud) [])))
        (emit (received url cloud) w))"
  by (simp add: sqlquery_def accepted_format_def received_def Let_def try_block_def
      create_async_connection_def except_block_def finally_block_def)

lemma sqlquery_acquire_failed:
  "accepted_format format \<Longrightarrow> db_pools env cloud = Some dbt \<Longrightarrow> pool_acquire env cloud = Inl e \<Longrightarrow>
   sqlquery cfg env sql cloud format url w =
     (Inl (HTTPException 500 (str_exn e) []),
      emit (Log ERROR (''Error executing query: '' @ str_exn e)) (emit (received url cloud) w))"
  by (cases dbt) (simp_all add: sqlquery_def accepted_format_def received_def Let_def try_block_def
      create_async_connection_def except_block_def finally_block_def)


lemma create_async_connection_ok:
  "db_pools env cloud = Some dbt \<Longrightarrow> pool_acquire env cloud = Inr c \<Longrightarrow>
   fst (create_async_connection env cloud w) = Inr (c, dbt) \<and>
   db_calls (events_since w (snd (create_async_connection env cloud w))) =
     Acquire cloud c # (if dbt = MySQL then [SetExecutionTime c] else [])"
  by (cases dbt) (simp_all add: create_async_connection_def Let_def db_calls_def split: option.splits)

lemma sqlquery_acquired_unfold:
  assumes "accepted_format format" "db_pools env cloud = Some dbt" "pool_acquire env cloud = Inr c"
  shows "sqlquery cfg env sql cloud format url w =
      (fst (except_block (fst (run_query cfg env c dbt sql (effective_format format) (connected env cloud url w)))
              (snd (run_query cfg env c dbt sql (effective_format format) (connected env cloud url w)))),
       finally_block env cloud (Some c)
         (snd (except_block (fst (run_query cfg env c dbt sql (effective_format format) (connected env cloud url w)))
                 (snd (run_query cfg env c dbt sql (effective_format format) (connected env cloud url w))))))"
proof -
  have acq: "create_async_connection env cloud (emit (received url cloud) w) =
               (Inr (c, dbt), connected env cloud url w)"
    using create_async_connection_ok[OF assms(2,3), of "emit (received url cloud) w"]
    by (simp add: connected_def prod_eq_iff)
  have ok: "effective_format format = ''json'' \<or> effective_format format = ''csv''"
    using assms(1) by (simp add: accepted_format_def effective_format_def Let_def)
  show ?thesis
    using ok acq
    by (auto simp add: sqlquery_def Let_def try_block_def received_def effective_format_def split_beta)
qed

lemma sqlquery_acquired_result:
  assumes "accepted_format format" "db_pools env cloud = Some dbt" "pool_acquire env cloud = Inr c"
  shows "fst (sqlquery cfg env sql cloud format url w) =
           (case fst (run_query cfg env c dbt sql (effective_format format) (connected env cloud url w)) of
              Inl e \<Rightarrow> Inl (HTTPException 500 (str_exn e) [])
            | Inr resp \<Rightarrow> Inr resp)"
  by (simp add: sqlquery_acquired_unfold[OF assms] except_block_def split: sum.splits)

lemma sqlquery_acquired_files:
  assumes "accepted_format format" "db_pools env cloud = Some dbt" "pool_acquire env cloud = Inr c"
  shows "files (snd (sqlquery cfg env sql cloud format url w)) =
           files (snd (run_query cfg env c dbt sql (effective_format format) (connected env cloud url w)))"
  by (simp add: sqlquery_acquired_unfold[OF assms] except_block_def finally_block_def Let_def
      split: sum.splits option.splits)

lemma trace_connected:
  assumes "db_pools env cloud = Some dbt" "pool_acquire env cloud = Inr c"
  shows "trace (connected env cloud url w) =
           trace w @ received url cloud # Acquire cloud c
           # (if dbt = MySQL then SetExecutionTime c
                # (case set_execution_time env c of None \<Rightarrow> []
                   | Some e \<Rightarrow> [Log DEBUG (''MAX_EXECUTION_TIME not supported; ''
                                         @ ''continuing without per-statement timeout'')])
              else [])"
  using assms
  by (cases dbt) (simp_all add: connected_def create_async_connection_def Let_def split: option.splits)

lemma sqlquery_acquired_trace:
  assumes "accepted_format format" "db_pools env cloud = Some dbt" "pool_acquire env cloud = Inr c"
  shows "events_since w (snd (sqlquery cfg env sql cloud format url w)) =
           received url cloud # Acquire cloud c
           # (if dbt = MySQL then SetExecutionTime c
                # (case set_execution_time env c of None \<Rightarrow> []
                   | Some e \<Rightarrow> [Log DEBUG (''MAX_EXECUTION_TIME not supported; ''
                                         @ ''continuing without per-statement timeout'')])
              else [])
           @ (if is_data_query sql then [Fetch c sql]
              else [Execute c sql]
                   @ (if dbt = MySQL \<and> db_execute env c sql = None then [Commit c] else []))
           @ (case fst (run_query cfg env c dbt sql (effective_format format) (connected env cloud url w)) of
                Inl e \<Rightarrow> [Log ERROR (''Error executing query: '' @ str_exn e)] | Inr x \<Rightarrow> [])
           @ [Log DEBUG (''Releasing pooled connection for cloud: '' @ cloud), Release cloud c]
           @ (case pool_release env cloud c of None \<Rightarrow> []
               | Some e \<Rightarrow> [Log ERROR (''Error while releasing connection for '' @ cloud @ '': '' @ str_exn e)])"
  by (rule events_since_append)
     (simp add: sqlquery_acquired_unfold[OF assms] trace_finally_block trace_except_block
        trace_run_query trace_connected[OF assms(2,3)] assms(2))

lemma sqlquery_acquired_db_calls:
  assumes "accepted_format format" "db_pools env cloud = Some dbt" "pool_acquire env cloud = Inr c"
  shows "db_calls (events_since w (snd (sqlquery cfg env sql cloud format url w))) =
           Acquire cloud c # (if dbt = MySQL then [SetExecutionTime c] else [])
           @ (if is_data_query sql then [Fetch c sql]
              else Execute c sql
                   # (if dbt = MySQL \<and> db_execute env c sql = None then [Commit c] else []))
           @ [Release cloud c]"
  by (simp add: sqlquery_acquired_trace[OF assms] db_calls_def received_def
      split: option.splits sum.splits)

lemma sqlquery_events_rejected:
  "\<not> accepted_format format \<Longrightarrow>
   events_since w (snd (sqlquery cfg env sql cloud format url w)) = [received url cloud]"
  by (simp add: sqlquery_rejected)

lemma sqlquery_events_no_pool:
  "accepted_format format \<Longrightarrow> db_pools env cloud = None \<Longrightarrow>
   events_since w (snd (sqlquery cfg env sql cloud format url w)) =
     [received url cloud,
      Log ERROR (''Error executing query: '' @ str_exn (HTTPException 500 (NO_POOL_MSG cloud) []))]"
  by (simp add: sqlquery_no_pool)

lemma sqlquery_events_acquire_failed:
  "accepted_format format \<Longrightarrow> db_pools env cloud = Some dbt \<Longrightarrow> pool_acquire env cloud = Inl e \<Longrightarrow>
   events_since w (snd (sqlquery cfg env sql cloud format url w)) =
     [received url cloud, Log ERROR (''Error executing query: '' @ str_exn e)]"
  by (simp add: sqlquery_acquire_failed)

lemma acquire_event_iff:
  "Acquire cl c \<in> set (events_since w (snd (sqlquery cfg env sql cloud format url w))) \<longleftrightarrow>
   accepted_format format \<and> cl = cloud \<and> db_pools env cloud \<noteq> None \<and> pool_acquire env cloud = Inr c"
proof (cases "accepted_format format")
  case False
  then show ?thesis by (simp add: sqlquery_events_rejected received_def)
next
  case acc: True
  show ?thesis
  proof (cases "db_pools env cloud")
    case None
    with acc show ?thesis by (simp add: sqlquery_events_no_pool received_def)
  next
    case (Some dbt)
    show ?thesis
    proof (cases "pool_acquire env cloud")
      case (Inl e)
      with acc Some show ?thesis by (simp add: sqlquery_events_acquire_failed received_def)
    next
      case (Inr c')
      with acc Some show ?thesis
        by (auto simp add: sqlquery_acquired_trace received_def split: option.splits sum.splits)
    qed
  qed
qed

lemma create_async_connection_release:
  "create_async_connection (env\<lparr>pool_release := rel\<rparr>) cloud w =
   create_async_connection env cloud w"
  by (simp add: create_async_connection_def split: option.splits db_type.splits sum.splits)

lemma execute_and_acknowledge_release:
  "execute_and_acknowledge (env\<lparr>pool_release := rel\<rparr>) c dbt sql w =
   execute_and_acknowledge env c dbt sql w"
  by (simp add: execute_and_acknowledge_def Let_def cong: option.case_cong)

lemma render_csv_release:
  "render_csv cfg (env\<lparr>pool_release := rel\<rparr>) rows w = render_csv cfg env rows w"
  by (simp add: render_csv_def Let_def cong: option.case_cong sum.case_cong)

lemma run_query_release:
  "run_query cfg (env\<lparr>pool_release := rel\<rparr>) c dbt sql fmt w = run_query cfg env c dbt sql fmt w"
  by (simp add: run_query_def execute_and_acknowledge_release fetch_all_rows_def
      render_csv_release cong: sum.case_cong if_cong)

lemma try_block_release:
  "try_block cfg (env\<lparr>pool_release := rel\<rparr>) sql cloud fmt w = try_block cfg env sql cloud fmt w"
  by (simp add: try_block_def create_async_connection_release run_query_release
      cong: prod.case_cong sum.case_cong)

lemma fst_except_block:
  "fst (except_block r w) =
     (case r of Inl e \<Rightarrow> Inl (HTTPException 500 (str_exn e) []) | Inr resp \<Rightarrow> Inr resp)"
  by (simp add: except_block_def split: sum.splits)

lemma response_release_independent:
  "fst (sqlquery cfg (env\<lparr>pool_release := rel\<rparr>) sql cloud format url w) =
   fst (sqlquery cfg env sql cloud format url w)"
  by (simp add: sqlquery_def Let_def split_beta try_block_release fst_except_block)

lemma acquired_cases:
  assumes "Acquire cloud c \<in> set (events_of cfg env sql cloud format url w)"
  obtains dbt where "accepted_format format" "db_pools env cloud = Some dbt" "pool_acquire env cloud = Inr c"
  using assms by (auto simp add: events_of_def acquire_event_iff)

lemma db_calls_member: "\<not> is_log e \<Longrightarrow> e \<in> set (db_calls evs) \<longleftrightarrow> e \<in> set evs"
  by (simp add: db_calls_def)

lemma list_ex_db_calls:
  "list_ex on_acknowledge_path (db_calls evs) = list_ex on_acknowledge_path evs"
  "list_ex on_row_path (db_calls evs) = list_ex on_row_path evs"
proof -
  have "on_acknowledge_path e \<Longrightarrow> \<not> is_log e" and "on_row_path e \<Longrightarrow> \<not> is_log e" for e
    by (cases e; simp)+
  then show "list_ex on_acknowledge_path (db_calls evs) = list_ex on_acknowledge_path evs"
    and "list_ex on_row_path (db_calls evs) = list_ex on_row_path evs"
    by (auto simp add: db_calls_def list_ex_iff)
qed

lemma routed_events:
  assumes "Acquire cloud c \<in> set (events_of cfg env sql cloud format url w)"
  shows "if is_data_query sql
         then Fetch c sql \<in> set (events_of cfg env sql cloud format url w)
              \<and> \<not> list_ex on_acknowledge_path (events_of cfg env sql cloud format url w)
         else Execute c sql \<in> set (events_of cfg env sql cloud format url w)
              \<and> \<not> list_ex on_row_path (events_of cfg env sql cloud format url w)"
proof -
  from assms obtain dbt where a: "accepted_format format" "db_pools env cloud = Some dbt"
      "pool_acquire env cloud = Inr c"
    by (rule acquired_cases)
  let ?evs = "events_of cfg env sql cloud format url w"
  have calls: "db_calls ?evs =
           Acquire cloud c # (if dbt = MySQL then [SetExecutionTime c] else [])
           @ (if is_data_query sql then [Fetch c sql]
              else Execute c sql
                   # (if dbt = MySQL \<and> db_execute env c sql = None then [Commit c] else []))
           @ [Release cloud c]"
    by (simp add: events_of_def sqlquery_acquired_db_calls[OF a])
  have "if is_data_query sql
        then Fetch c sql \<in> set (db_calls ?evs) \<and> \<not> list_ex on_acknowledge_path (db_calls ?evs)
        else Execute c sql \<in> set (db_calls ?evs) \<and> \<not> list_ex on_row_path (db_calls ?evs)"
    by (simp add: calls)
  then show ?thesis
    by (simp add: db_calls_member list_ex_db_calls split: if_splits)
qed

lemma acknowledged:
  assumes "Acquire cloud c \<in> set (events_of cfg env sql cloud format url w)"
    and "\<not> is_data_query sql" and "db_execute env c sql = None"
    and "db_pools env cloud = Some MySQL \<longrightarrow> db_commit env c = None"
  shows "response_of cfg env sql cloud format url w
           = Inr (DictResponse [(''status'', JStr QUERY_SUCCESS_MSG)])"
proof -
  from assms(1) obtain dbt where a: "accepted_format format" "db_pools env cloud = Some dbt"
      "pool_acquire env cloud = Inr c"
    by (rule acquired_cases)
  show ?thesis
    using assms(2-4) a(2)
    by (simp add: response_of_def sqlquery_acquired_result[OF a] run_query_def
        execute_and_acknowledge_def Let_def)
qed

lemma keyword_prefix_is_data_query:
  assumes "k \<in> set data_keywords" "py_lower (py_strip sql) = k @ rest"
  shows "is_data_query sql"
  using assms by (auto simp add: is_data_query_spec spec_data_returning_def list_ex_iff intro!: bexI[of _ k])


section \<open>Lemmas on authentication and on the format\<close>

lemma verify_api_key_missing:
  "auth = None \<or> auth = Some [] \<Longrightarrow>
   verify_api_key key auth =
     Inl (HTTPException 401 AUTH_MISSING_HEADER_MSG [(''WWW-Authenticate'', ''Bearer'')])"
  by (auto simp add: verify_api_key_def)

lemma verify_api_key_invalid_scheme:
  "h \<noteq> [] \<Longrightarrow> py_lower (auth_scheme h) \<noteq> ''bearer'' \<or> auth_token h = [] \<Longrightarrow>
   verify_api_key key (Some h) =
     Inl (HTTPException 401 AUTH_INVALID_SCHEME_MSG [(''WWW-Authenticate'', ''Bearer'')])"
  by (auto simp add: verify_api_key_def auth_scheme_def auth_token_def split: prod.splits)

lemma verify_api_key_invalid_key:
  "py_lower (auth_scheme h) = ''bearer'' \<Longrightarrow> auth_token h \<noteq> [] \<Longrightarrow>
   is_ascii (auth_token h) \<Longrightarrow> is_ascii key \<Longrightarrow> auth_token h \<noteq> key \<Longrightarrow>
   verify_api_key key (Some h) = Inl (HTTPException 403 AUTH_INVALID_KEY_MSG [])"
  by (auto simp add: verify_api_key_def auth_scheme_def auth_token_def compare_digest_def
      py_partition_def split: prod.splits if_splits)

lemma endpoint_auth_failure:
  "verify_api_key (API_KEY cfg) (req_authorization req) = Inl e \<Longrightarrow>
   endpoint cfg env req w = (Inl e, w)"
  by (simp add: endpoint_def)


lemma accepted_format_iff:
  "accepted_format format \<longleftrightarrow> format = [] \<or> py_lower format = ''json'' \<or> py_lower format = ''csv''"
  by (auto simp add: accepted_format_def Let_def) code_simp

lemma accepted_never_400:
  assumes "accepted_format format"
  shows "response_of cfg env sql cloud format url w \<noteq> Inl (HTTPException 400 d h)"
proof (cases "db_pools env cloud")
  case None
  with assms show ?thesis by (simp add: response_of_def sqlquery_no_pool)
next
  case (Some dbt)
  show ?thesis
  proof (cases "pool_acquire env cloud")
    case (Inl e)
    with assms Some show ?thesis by (simp add: response_of_def sqlquery_acquire_failed)
  next
    case (Inr c)
    with assms Some show ?thesis
      by (simp add: response_of_def sqlquery_acquired_result split: sum.splits)
  qed
qed

section \<open>Lemmas on startup\<close>





lemma non_ascii_token_is_not_handled:
  assumes "py_lower (auth_scheme h) = ''bearer''" and "auth_token h \<noteq> []"
    and "\<not> is_ascii (auth_token h)"
  shows "verify_api_key key (Some h) =
           Inl (PyError ''TypeError''
                  ''comparing strings with non-ASCII characters is not supported'')"
  using assms
  by (auto simp add: verify_api_key_def auth_scheme_def auth_token_def compare_digest_def
      py_partition_def split: prod.splits if_splits)

section \<open>Lemmas on the two encodings\<close>


lemma collect_length: "collect f xs = Inr ys \<Longrightarrow> length ys = length xs"
  by (induction xs arbitrary: ys) (auto split: sum.splits)





lemma render_json_capped:
  "render_json cfg rows =
     (case dumps_response_data (capped (max_json_rows cfg) rows)
             (max_json_rows cfg < int (length rows)) of
        Inl e \<Rightarrow> Inl e
      | Inr content \<Rightarrow>
          if floats_finite content then Inr (JSONResponse 200 content [])
          else Inl (PyError ''ValueError'' ''Out of range float values are not JSON compliant''))"
  by (simp add: render_json_def capped_def Let_def)


lemma capped_take: "0 \<le> cap \<Longrightarrow> capped cap rows = take (nat cap) rows"
  by (simp add: capped_def py_slice_to_def)


lemma run_query_data:
  "is_data_query sql \<Longrightarrow> db_fetch env c sql = Inr rows \<Longrightarrow>
   run_query cfg env c dbt sql fmt w =
     (if fmt = ''json'' then (render_json cfg rows, emit (Fetch c sql) w)
      else render_csv cfg env rows (emit (Fetch c sql) w))"
  by (simp add: run_query_def fetch_all_rows_def)

lemma effective_accepted:
  "effective_format format = ''json'' \<or> effective_format format = ''csv'' \<Longrightarrow> accepted_format format"
  by (simp add: accepted_format_def effective_format_def Let_def)

lemma json_response:
  assumes "db_pools env cloud = Some dbt" "pool_acquire env cloud = Inr c"
    and "is_data_query sql" "db_fetch env c sql = Inr rows" "effective_format format = ''json''"
  shows "response_of cfg env sql cloud format url w =
           (case render_json cfg rows of
              Inl e \<Rightarrow> Inl (HTTPException 500 (str_exn e) [])
            | Inr resp \<Rightarrow> Inr resp)"
  using assms
  by (simp add: response_of_def sqlquery_acquired_result[OF effective_accepted assms(1,2)]
      run_query_data)

lemma render_csv_ok:
  assumes "csv_buffer_value (py_str env) (capped (max_csv_rows cfg) rows) = Inr text"
    and "temp_file env = Inr path" and "temp_write env text = None"
  shows "render_csv cfg env rows w =
           (Inr (FileResponse path (CSV_FILENAME cfg) ''text/csv''
                   [(''Content-Disposition'', ''attachment; filename='' @ CSV_FILENAME cfg)]),
            w\<lparr>files := (files w)(path \<mapsto> text)\<rparr>)"
  using assms by (simp add: render_csv_def capped_def Let_def)

lemma csv_response:
  assumes "db_pools env cloud = Some dbt" "pool_acquire env cloud = Inr c"
    and "is_data_query sql" "db_fetch env c sql = Inr rows" "effective_format format = ''csv''"
    and "csv_buffer_value (py_str env) (capped (max_csv_rows cfg) rows) = Inr text"
    and "temp_file env = Inr path" and "temp_write env text = None"
  shows "response_of cfg env sql cloud format url w =
           Inr (FileResponse path (CSV_FILENAME cfg) ''text/csv''
                  [(''Content-Disposition'', ''attachment; filename='' @ CSV_FILENAME cfg)])"
  using assms(3-5)
  by (simp add: response_of_def sqlquery_acquired_result[OF effective_accepted assms(1,2)]
      run_query_data render_csv_ok[OF assms(6-8)])

lemma csv_response_file:
  assumes "db_pools env cloud = Some dbt" "pool_acquire env cloud = Inr c"
    and "is_data_query sql" "db_fetch env c sql = Inr rows" "effective_format format = ''csv''"
    and "csv_buffer_value (py_str env) (capped (max_csv_rows cfg) rows) = Inr text"
    and "temp_file env = Inr path" and "temp_write env text = None"
  shows "files_after cfg env sql cloud format url w path = Some text"
  using assms(3-5)
  by (simp add: files_after_def sqlquery_acquired_files[OF effective_accepted assms(1,2)]
      run_query_data render_csv_ok[OF assms(6-8)])












lemma render_json_first_rows:
  assumes "0 \<le> max_json_rows cfg"
    and "collect dumps_row (take (nat (max_json_rows cfg)) rows) = Inr js"
    and "list_all floats_finite js"
  shows "render_json cfg rows =
           Inr (JSONResponse 200
                  (JObj [(''rows'', JList js),
                         (''truncated'', JBool (max_json_rows cfg < int (length rows)))]) [])"
  using assms
  by (simp add: render_json_capped capped_take dumps_response_data_def)

section \<open>Lemmas on the middleware\<close>

lemma middleware_removes_nothing:
  "remove_temp_file env request_url (call_next inner) w =
     call_next inner (emit (Log DEBUG (''Processing request: '' @ request_url)) w)"
  by (simp add: remove_temp_file_def call_next_def split: prod.splits sum.splits)

lemma failed_removal_keeps_file:
  assumes "files w path = Some body" and "os_remove env path = Some e"
  shows "remove_temp_file env request_url (\<lambda>w'. (Inr (FileResponse path fn mt hs), w')) w =
           (Inr (FileResponse path fn mt hs),
            emit (Log ERROR (''Error removing temp file: '' @ str_exn e))
              (emit (Log DEBUG (''Processing request: '' @ request_url)) w))"
    and "files (snd (remove_temp_file env request_url
                       (\<lambda>w'. (Inr (FileResponse path fn mt hs), w')) w)) path = Some body"
  using assms by (simp_all add: remove_temp_file_def)

section \<open>The claims\<close>

text \<open>
  C1.  A request that acquires a pooled connection gives it back to the pool it came
  from exactly once, as the last call on the database, whatever happens in between
  (the statement runs or the driver raises, the encoding succeeds or raises); what the
  release answers does not change the outcome of the request, and a failing release
  leaves an error line in the log, the last event of the request.
\<close>

theorem connection_released_exactly_once:
  assumes "Acquire cl c \<in> set (events_of cfg env sql cloud format url w)"
  shows "filter is_release (events_of cfg env sql cloud format url w) = [Release cl c]
       \<and> last (db_calls (events_of cfg env sql cloud format url w)) = Release cl c
       \<and> response_of cfg (env\<lparr>pool_release := rel\<rparr>) sql cloud format url w
           = response_of cfg env sql cloud format url w
       \<and> (\<forall>e. pool_release env cl c = Some e \<longrightarrow>
            last (events_of cfg env sql cloud format url w)
              = Log ERROR (''Error while releasing connection for '' @ cl @ '': '' @ str_exn e))"
proof -
  from assms have cl: "cl = cloud"
    by (simp add: events_of_def acquire_event_iff)
  from assms obtain dbt where acc: "accepted_format format"
      and pool: "db_pools env cloud = Some dbt" and acq: "pool_acquire env cloud = Inr c"
    unfolding cl by (rule acquired_cases)
  note tr = sqlquery_acquired_trace[OF acc pool acq, of w cfg sql url]
  have rel: "filter is_release (events_of cfg env sql cloud format url w) = [Release cloud c]"
    by (simp add: events_of_def tr received_def split: option.splits sum.splits)
  have lst: "last (db_calls (events_of cfg env sql cloud format url w)) = Release cloud c"
    by (simp add: events_of_def sqlquery_acquired_db_calls[OF acc pool acq])
  have logged: "last (events_of cfg env sql cloud format url w)
              = Log ERROR (''Error while releasing connection for '' @ cloud @ '': '' @ str_exn e)"
    if "pool_release env cloud c = Some e" for e
    using that by (simp add: events_of_def tr)
  from rel lst logged show ?thesis
    by (simp add: cl response_of_def response_release_independent)
qed

theorem connection_released_exactly_once_witness:
  "Acquire ''neon_postgres'' 7
     \<in> set (events_of sample_config sample_env ''select 1'' ''neon_postgres'' ''json''
              ''/sqlquery/'' fresh_world)
   \<and> filter is_release
       (events_of sample_config sample_env ''select 1'' ''neon_postgres'' ''json''
          ''/sqlquery/'' fresh_world)
     = [Release ''neon_postgres'' 7]
   \<and> response_of sample_config (sample_env\<lparr>pool_release := \<lambda>cloud c. None\<rparr>) ''select 1''
       ''neon_postgres'' ''json'' ''/sqlquery/'' fresh_world
     = response_of sample_config sample_env ''select 1'' ''neon_postgres'' ''json''
         ''/sqlquery/'' fresh_world
   \<and> last (events_of sample_config sample_env ''select 1'' ''neon_postgres'' ''json''
             ''/sqlquery/'' fresh_world)
     = Log ERROR (''Error while releasing connection for '' @ ''neon_postgres'' @ '': ''
                  @ str_exn (PyError ''InterfaceError'' ''pool is closed''))
   \<and> response_of sample_config failing_env ''select 1'' ''neon_postgres'' ''json''
       ''/sqlquery/'' fresh_world
     = Inl (HTTPException 500 ''syntax error'' [])
   \<and> filter is_release
       (events_of sample_config failing_env ''select 1'' ''neon_postgres'' ''json''
          ''/sqlquery/'' fresh_world)
     = [Release ''neon_postgres'' 7]
   \<and> response_of sample_config nan_env ''select 1'' ''neon_postgres'' ''json''
       ''/sqlquery/'' fresh_world
     = Inl (HTTPException 500 ''Out of range float values are not JSON compliant'' [])
   \<and> filter is_release
       (events_of sample_config nan_env ''select 1'' ''neon_postgres'' ''json''
          ''/sqlquery/'' fresh_world)
     = [Release ''neon_postgres'' 7]"
proof -
  have acquired: "Acquire ''neon_postgres'' 7
     \<in> set (events_of sample_config sample_env ''select 1'' ''neon_postgres'' ''json''
              ''/sqlquery/'' fresh_world)"
    by code_simp
  have fails: "pool_release sample_env ''neon_postgres'' 7
                 = Some (PyError ''InterfaceError'' ''pool is closed'')"
    by (simp add: sample_env_def)
  have raised: "Acquire ''neon_postgres'' 7
     \<in> set (events_of sample_config failing_env ''select 1'' ''neon_postgres'' ''json''
              ''/sqlquery/'' fresh_world)"
    "response_of sample_config failing_env ''select 1'' ''neon_postgres'' ''json''
       ''/sqlquery/'' fresh_world
     = Inl (HTTPException 500 ''syntax error'' [])"
    by code_simp+
  have unencodable: "Acquire ''neon_postgres'' 7
     \<in> set (events_of sample_config nan_env ''select 1'' ''neon_postgres'' ''json''
              ''/sqlquery/'' fresh_world)"
    "response_of sample_config nan_env ''select 1'' ''neon_postgres'' ''json''
       ''/sqlquery/'' fresh_world
     = Inl (HTTPException 500 ''Out of range float values are not JSON compliant'' [])"
    by code_simp+
  from connection_released_exactly_once[OF acquired, of "\<lambda>cloud c. None"]
       connection_released_exactly_once[OF raised(1), of "\<lambda>cloud c. None"]
       connection_released_exactly_once[OF unencodable(1), of "\<lambda>cloud c. None"]
       acquired fails raised(2) unencodable(2)
  show ?thesis by blast
qed

text \<open>
  C2.  The code does not do what the claim says.  A CSV request is answered from a
  temporary file; the middleware \<^verbatim>\<open>remove_temp_file\<close> is handed the streaming wrapper
  of \<^verbatim>\<open>call_next\<close>, not the \<^verbatim>\<open>FileResponse\<close>, so its \<^verbatim>\<open>isinstance\<close> test fails and
  \<^verbatim>\<open>os.remove\<close> is never called, although it would have succeeded: after the response
  has been sent the file is still on disk with its content.
\<close>

theorem temp_file_survives_the_response:
  "fst (app sample_config sample_env csv_request fresh_world)
     = StreamingResponse (csv_file_response sample_config ''/tmp/tmpab12.csv'')
   \<and> backing_file (fst (app sample_config sample_env csv_request fresh_world))
     = Some ''/tmp/tmpab12.csv''
   \<and> os_remove sample_env ''/tmp/tmpab12.csv'' = None
   \<and> fst (transmit (fst (app sample_config sample_env csv_request fresh_world))
             (snd (app sample_config sample_env csv_request fresh_world)))
   \<and> files (snd (transmit (fst (app sample_config sample_env csv_request fresh_world))
                    (snd (app sample_config sample_env csv_request fresh_world))))
        ''/tmp/tmpab12.csv''
     = Some (''x'' @ CRLF @ ''1'' @ CRLF)"
  by code_simp

text \<open>
  C3 (amended).  For a data-returning statement whose rows are \<open>rows\<close>: in format
  \<^verbatim>\<open>json\<close>, with a cap that is not negative, when the first \<open>min(count, cap)\<close> rows
  encode the answer reports \<^verbatim>\<open>truncated\<close> exactly when the count exceeds the cap and
  returns those rows, in order; in format \<^verbatim>\<open>csv\<close> the answer is a file that holds the
  first \<open>min(count, cap)\<close> rows and it reports nothing about truncation.  The caps
  default to 10000 and 1000000.
\<close>

theorem truncation_per_format:
  assumes "db_pools env cloud = Some dbt" and "pool_acquire env cloud = Inr c"
    and "is_data_query sql" and "db_fetch env c sql = Inr rows"
  shows "(effective_format format = ''json'' \<and> 0 \<le> max_json_rows cfg
          \<and> collect dumps_row (take (nat (max_json_rows cfg)) rows) = Inr js
          \<and> list_all floats_finite js \<longrightarrow>
            (\<exists>resp. response_of cfg env sql cloud format url w = Inr resp
               \<and> reported_truncated resp = Some (max_json_rows cfg < int (length rows))
               \<and> returned_rows resp = Some js
               \<and> length js = min (length rows) (nat (max_json_rows cfg))))
       \<and> (effective_format format = ''csv'' \<and> 0 \<le> max_csv_rows cfg
          \<and> csv_buffer_value (py_str env) (take (nat (max_csv_rows cfg)) rows) = Inr body
          \<and> temp_file env = Inr path \<and> temp_write env body = None \<longrightarrow>
            (\<exists>resp. response_of cfg env sql cloud format url w = Inr resp
               \<and> reported_truncated resp = None
               \<and> backing_file resp = Some path
               \<and> files_after cfg env sql cloud format url w path = Some body
               \<and> length (take (nat (max_csv_rows cfg)) rows)
                   = min (length rows) (nat (max_csv_rows cfg))))
       \<and> (MAX_JSON_ROWS cfg = None \<longrightarrow> max_json_rows cfg = 10000)
       \<and> (MAX_CSV_ROWS cfg = None \<longrightarrow> max_csv_rows cfg = 1000000)"
proof (intro conjI impI)
  assume json: "effective_format format = ''json'' \<and> 0 \<le> max_json_rows cfg
          \<and> collect dumps_row (take (nat (max_json_rows cfg)) rows) = Inr js
          \<and> list_all floats_finite js"
  then have "length js = min (length rows) (nat (max_json_rows cfg))"
    by (auto dest: collect_length)
  with json show "\<exists>resp. response_of cfg env sql cloud format url w = Inr resp
               \<and> reported_truncated resp = Some (max_json_rows cfg < int (length rows))
               \<and> returned_rows resp = Some js
               \<and> length js = min (length rows) (nat (max_json_rows cfg))"
    by (simp add: json_response[OF assms] render_json_first_rows)
next
  assume csv: "effective_format format = ''csv'' \<and> 0 \<le> max_csv_rows cfg
          \<and> csv_buffer_value (py_str env) (take (nat (max_csv_rows cfg)) rows) = Inr body
          \<and> temp_file env = Inr path \<and> temp_write env body = None"
  then have body: "csv_buffer_value (py_str env) (capped (max_csv_rows cfg) rows) = Inr body"
    by (simp add: capped_take)
  from csv have more: "effective_format format = ''csv''" "temp_file env = Inr path"
      "temp_write env body = None"
    by simp_all
  from csv_response[OF assms more(1) body more(2,3)]
       csv_response_file[OF assms more(1) body more(2,3)]
  show "\<exists>resp. response_of cfg env sql cloud format url w = Inr resp
               \<and> reported_truncated resp = None
               \<and> backing_file resp = Some path
               \<and> files_after cfg env sql cloud format url w path = Some body
               \<and> length (take (nat (max_csv_rows cfg)) rows)
                   = min (length rows) (nat (max_csv_rows cfg))"
    by simp
next
  assume "MAX_JSON_ROWS cfg = None"
  then show "max_json_rows cfg = 10000" by (simp add: max_json_rows_def)
next
  assume "MAX_CSV_ROWS cfg = None"
  then show "max_csv_rows cfg = 1000000" by (simp add: max_csv_rows_def)
qed

theorem truncation_per_format_witness:
  "(\<exists>resp. response_of roomy_config sample_env ''select x from t'' ''neon_postgres'' ''json''
              ''/sqlquery/'' fresh_world = Inr resp
       \<and> reported_truncated resp = Some True
       \<and> returned_rows resp = Some [JObj [(''x'', JInt 1)]])
   \<and> (\<exists>resp. response_of sample_config sample_env ''select x from t'' ''neon_postgres'' ''csv''
              ''/sqlquery/'' fresh_world = Inr resp
       \<and> reported_truncated resp = None
       \<and> backing_file resp = Some ''/tmp/tmpab12.csv''
       \<and> files_after sample_config sample_env ''select x from t'' ''neon_postgres'' ''csv''
            ''/sqlquery/'' fresh_world ''/tmp/tmpab12.csv''
           = Some (''x'' @ CRLF @ ''1'' @ CRLF))"
proof -
  have pool: "db_pools sample_env ''neon_postgres'' = Some PostgreSQL"
    and acq: "pool_acquire sample_env ''neon_postgres'' = Inr 7"
    and fetch: "db_fetch sample_env 7 ''select x from t''
                  = Inr [[(''x'', VInt 1)], [(''x'', VInt 2)]]"
    and temp: "temp_file sample_env = Inr ''/tmp/tmpab12.csv''"
              "temp_write sample_env (''x'' @ CRLF @ ''1'' @ CRLF) = None"
    by (simp_all add: sample_env_def)
  have data: "is_data_query ''select x from t''"
    and fmt: "effective_format ''json'' = ''json''" "effective_format ''csv'' = ''csv''"
    by code_simp+
  have caps: "max_json_rows roomy_config = 1" "max_csv_rows sample_config = 1"
    by (simp_all add: max_json_rows_def max_csv_rows_def roomy_config_def sample_config_def)
  have js: "collect dumps_row (take (nat 1) [[(''x'', VInt 1)], [(''x'', VInt 2)]])
              = Inr [JObj [(''x'', JInt 1)]]"
    "list_all floats_finite [JObj [(''x'', JInt 1)]]"
    by code_simp+
  have body: "csv_buffer_value (py_str sample_env)
                (take (nat 1) [[(''x'', VInt 1)], [(''x'', VInt 2)]])
              = Inr (''x'' @ CRLF @ ''1'' @ CRLF)"
    by code_simp
  from truncation_per_format[OF pool acq data fetch, where format = "''json''"
         and cfg = roomy_config and js = "[JObj [(''x'', JInt 1)]]" and url = "''/sqlquery/''"
         and w = fresh_world]
       truncation_per_format[OF pool acq data fetch, where format = "''csv''"
         and cfg = sample_config and body = "''x'' @ CRLF @ ''1'' @ CRLF"
         and path = "''/tmp/tmpab12.csv''" and url = "''/sqlquery/''" and w = fresh_world]
       fmt caps js body temp
  show ?thesis by simp
qed

text \<open>
  The claim C3 as stated fails for format \<^verbatim>\<open>csv\<close>: two rows under a cap of one are cut
  to one, and the answer carries no \<^verbatim>\<open>truncated\<close> flag.
\<close>

theorem csv_answer_reports_no_truncation:
  "db_fetch sample_env 7 ''select x from t'' = Inr [[(''x'', VInt 1)], [(''x'', VInt 2)]]
   \<and> max_csv_rows sample_config < int (length [[(''x'', VInt 1)], [(''x'', VInt 2)]])
   \<and> response_of sample_config sample_env ''select x from t'' ''neon_postgres'' ''csv''
        ''/sqlquery/'' fresh_world
      = Inr (FileResponse ''/tmp/tmpab12.csv'' ''results.csv'' ''text/csv''
               [(''Content-Disposition'', ''attachment; filename=results.csv'')])
   \<and> reported_truncated
        (FileResponse ''/tmp/tmpab12.csv'' ''results.csv'' ''text/csv''
           [(''Content-Disposition'', ''attachment; filename=results.csv'')]) = None"
  by code_simp

text \<open>
  C4.  The handler's test is the specification's: a statement is data-returning exactly
  when its text, stripped and lowercased, starts with one of the five keywords.  On a
  connection \<open>c\<close> a data-returning statement is fetched and nothing is executed or
  committed; any other statement is executed, no rows are fetched, and when the driver
  raises nothing the answer is the acknowledgment.
\<close>

theorem classification_routes_statement:
  "(is_data_query sql \<longleftrightarrow> spec_data_returning sql) \<and>
   (Acquire cloud c \<in> set (events_of cfg env sql cloud format url w) \<longrightarrow>
      (if spec_data_returning sql
       then Fetch c sql \<in> set (events_of cfg env sql cloud format url w)
            \<and> \<not> list_ex on_acknowledge_path (events_of cfg env sql cloud format url w)
       else Execute c sql \<in> set (events_of cfg env sql cloud format url w)
            \<and> \<not> list_ex on_row_path (events_of cfg env sql cloud format url w)
            \<and> (db_execute env c sql = None
                 \<and> (db_pools env cloud = Some MySQL \<longrightarrow> db_commit env c = None)
               \<longrightarrow> response_of cfg env sql cloud format url w
                     = Inr (DictResponse [(''status'', JStr QUERY_SUCCESS_MSG)]))))"
  using routed_events[of cloud c cfg env sql format url w]
        acknowledged[of cloud c cfg env sql format url w]
  by (simp add: is_data_query_spec)

theorem classification_routes_statement_witness:
  "spec_data_returning ''  SELECT 1''
   \<and> Fetch 7 ''  SELECT 1''
       \<in> set (events_of sample_config sample_env ''  SELECT 1'' ''aiven_mysql'' ''json''
                ''/sqlquery/'' fresh_world)
   \<and> \<not> list_ex on_acknowledge_path
         (events_of sample_config sample_env ''  SELECT 1'' ''aiven_mysql'' ''json''
            ''/sqlquery/'' fresh_world)
   \<and> \<not> spec_data_returning ''insert into t values (1)''
   \<and> Execute 7 ''insert into t values (1)''
       \<in> set (events_of sample_config sample_env ''insert into t values (1)''
                ''aiven_mysql'' ''json'' ''/sqlquery/'' fresh_world)
   \<and> \<not> list_ex on_row_path
         (events_of sample_config sample_env ''insert into t values (1)''
            ''aiven_mysql'' ''json'' ''/sqlquery/'' fresh_world)
   \<and> response_of sample_config sample_env ''insert into t values (1)'' ''aiven_mysql''
       ''json'' ''/sqlquery/'' fresh_world
     = Inr (DictResponse [(''status'', JStr QUERY_SUCCESS_MSG)])"
proof -
  have data: "spec_data_returning ''  SELECT 1''"
    and other: "\<not> spec_data_returning ''insert into t values (1)''"
    by code_simp+
  have acquired:
    "Acquire ''aiven_mysql'' 7
       \<in> set (events_of sample_config sample_env ''  SELECT 1'' ''aiven_mysql'' ''json''
                ''/sqlquery/'' fresh_world)"
    "Acquire ''aiven_mysql'' 7
       \<in> set (events_of sample_config sample_env ''insert into t values (1)''
                ''aiven_mysql'' ''json'' ''/sqlquery/'' fresh_world)"
    by code_simp+
  have driver: "db_execute sample_env 7 ''insert into t values (1)'' = None"
    "db_commit sample_env 7 = None"
    by (simp_all add: sample_env_def)
  from classification_routes_statement[of "''  SELECT 1''" "''aiven_mysql''" 7 sample_config
         sample_env "''json''" "''/sqlquery/''" fresh_world]
       classification_routes_statement[of "''insert into t values (1)''" "''aiven_mysql''" 7
         sample_config sample_env "''json''" "''/sqlquery/''" fresh_world]
       data other acquired driver
  show ?thesis by simp
qed






text \<open>
  C7 (amended).  Whatever the query text, the backend name and the format: a request
  with no \<^verbatim>\<open>Authorization\<close> header, or with an empty one, is answered 401 with the
  missing-header message; a non-empty header whose scheme is not \<^verbatim>\<open>bearer\<close> in any
  case, or whose token is empty, is answered 401 with the invalid-scheme message; a
  bearer header whose ASCII token differs from the ASCII API key is answered 403 with
  the invalid-key message.  In all three the world is untouched: the handler never ran.
\<close>

theorem authentication_failures:
  "(req_authorization req = None \<or> req_authorization req = Some [] \<longrightarrow>
      endpoint cfg env req w =
        (Inl (HTTPException 401 AUTH_MISSING_HEADER_MSG [(''WWW-Authenticate'', ''Bearer'')]), w))
   \<and> (req_authorization req = Some h \<and> h \<noteq> []
        \<and> (py_lower (auth_scheme h) \<noteq> ''bearer'' \<or> auth_token h = []) \<longrightarrow>
      endpoint cfg env req w =
        (Inl (HTTPException 401 AUTH_INVALID_SCHEME_MSG [(''WWW-Authenticate'', ''Bearer'')]), w))
   \<and> (req_authorization req = Some h \<and> py_lower (auth_scheme h) = ''bearer''
        \<and> auth_token h \<noteq> [] \<and> is_ascii (auth_token h) \<and> is_ascii (API_KEY cfg)
        \<and> auth_token h \<noteq> API_KEY cfg \<longrightarrow>
      endpoint cfg env req w = (Inl (HTTPException 403 AUTH_INVALID_KEY_MSG []), w))"
proof (intro conjI impI)
  assume "req_authorization req = None \<or> req_authorization req = Some []"
  then show "endpoint cfg env req w =
        (Inl (HTTPException 401 AUTH_MISSING_HEADER_MSG [(''WWW-Authenticate'', ''Bearer'')]), w)"
    by (intro endpoint_auth_failure verify_api_key_missing)
next
  assume "req_authorization req = Some h \<and> h \<noteq> []
        \<and> (py_lower (auth_scheme h) \<noteq> ''bearer'' \<or> auth_token h = [])"
  then show "endpoint cfg env req w =
        (Inl (HTTPException 401 AUTH_INVALID_SCHEME_MSG [(''WWW-Authenticate'', ''Bearer'')]), w)"
    by (intro endpoint_auth_failure) (simp add: verify_api_key_invalid_scheme)
next
  assume "req_authorization req = Some h \<and> py_lower (auth_scheme h) = ''bearer''
        \<and> auth_token h \<noteq> [] \<and> is_ascii (auth_token h) \<and> is_ascii (API_KEY cfg)
        \<and> auth_token h \<noteq> API_KEY cfg"
  then show "endpoint cfg env req w = (Inl (HTTPException 403 AUTH_INVALID_KEY_MSG []), w)"
    by (intro endpoint_auth_failure) (simp add: verify_api_key_invalid_key)
qed

theorem authentication_failures_witness:
  "endpoint sample_config sample_env (sample_request\<lparr>req_authorization := None\<rparr>) fresh_world
     = (Inl (HTTPException 401 AUTH_MISSING_HEADER_MSG [(''WWW-Authenticate'', ''Bearer'')]),
        fresh_world)
   \<and> py_lower (auth_scheme ''Basic dXNlcjpwdw=='') \<noteq> ''bearer''
   \<and> endpoint sample_config sample_env
        (sample_request\<lparr>req_authorization := Some ''Basic dXNlcjpwdw==''\<rparr>) fresh_world
     = (Inl (HTTPException 401 AUTH_INVALID_SCHEME_MSG [(''WWW-Authenticate'', ''Bearer'')]),
        fresh_world)
   \<and> py_lower (auth_scheme ''BEARER wrong'') = ''bearer'' \<and> auth_token ''BEARER wrong'' = ''wrong''
   \<and> endpoint sample_config sample_env
        (sample_request\<lparr>req_authorization := Some ''BEARER wrong'', req_cloud := ''nowhere''\<rparr>)
        fresh_world
     = (Inl (HTTPException 403 AUTH_INVALID_KEY_MSG []), fresh_world)"
proof -
  have basic: "py_lower (auth_scheme ''Basic dXNlcjpwdw=='') \<noteq> ''bearer''"
    by code_simp
  have bearer: "py_lower (auth_scheme ''BEARER wrong'') = ''bearer''"
    "auth_token ''BEARER wrong'' = ''wrong''" "is_ascii ''wrong''" "is_ascii ''s3cret''"
    by code_simp+
  have key: "API_KEY sample_config = ''s3cret''"
    by (simp add: sample_config_def)
  from authentication_failures[of "sample_request\<lparr>req_authorization := None\<rparr>" sample_config
         sample_env fresh_world]
       authentication_failures[of "sample_request\<lparr>req_authorization := Some ''Basic dXNlcjpwdw==''\<rparr>"
         sample_config sample_env fresh_world "''Basic dXNlcjpwdw==''"]
       authentication_failures[of "sample_request\<lparr>req_authorization := Some ''BEARER wrong'',
         req_cloud := ''nowhere''\<rparr>" sample_config sample_env fresh_world "''BEARER wrong''"]
       basic bearer key
  show ?thesis by simp
qed

text \<open>
  The claim C7 as stated fails at two headers.  The empty header has a scheme that is
  not \<^verbatim>\<open>bearer\<close> and an empty token, and the answer carries the missing-header
  message, not the invalid-scheme one.  The header \<^verbatim>\<open>Bearer\<close> followed by a token
  with a character beyond ASCII is well formed and its token is not the key, and
  \<^verbatim>\<open>compare_digest\<close> raises \<^verbatim>\<open>TypeError\<close>, which nothing handles: the answer is the
  server's plain 500, not 403.
\<close>

theorem empty_header_and_non_ascii_token:
  "py_lower (auth_scheme []) \<noteq> ''bearer'' \<and> auth_token [] = []
   \<and> fst (endpoint sample_config sample_env (sample_request\<lparr>req_authorization := Some []\<rparr>)
             fresh_world)
       = Inl (HTTPException 401 AUTH_MISSING_HEADER_MSG [(''WWW-Authenticate'', ''Bearer'')])
   \<and> AUTH_MISSING_HEADER_MSG \<noteq> AUTH_INVALID_SCHEME_MSG
   \<and> py_lower (auth_scheme (''Bearer '' @ [CHR 0xE9])) = ''bearer''
   \<and> auth_token (''Bearer '' @ [CHR 0xE9]) = [CHR 0xE9]
   \<and> [CHR 0xE9] \<noteq> API_KEY sample_config
   \<and> fst (endpoint sample_config sample_env
             (sample_request\<lparr>req_authorization := Some (''Bearer '' @ [CHR 0xE9])\<rparr>) fresh_world)
       = Inl (PyError ''TypeError''
                ''comparing strings with non-ASCII characters is not supported'')
   \<and> fst (app sample_config sample_env
             (sample_request\<lparr>req_authorization := Some (''Bearer '' @ [CHR 0xE9])\<rparr>) fresh_world)
       = PlainTextResponse 500 ''Internal Server Error''"
  by code_simp




text \<open>
  C9 (amended).  The format is lowercased before it is compared, and it is checked
  before anything touches a pool: a non-empty format that is neither \<^verbatim>\<open>json\<close> nor
  \<^verbatim>\<open>csv\<close> after lowercasing is answered 400 and the run leaves one log line and no
  call, for a known and for an unknown backend alike; a format that lowercases to
  \<^verbatim>\<open>json\<close> or \<^verbatim>\<open>csv\<close> is never answered 400; the empty format is served as
  \<^verbatim>\<open>json\<close>.
\<close>

theorem format_checked_before_the_pool:
  "(format \<noteq> [] \<and> py_lower format \<noteq> ''json'' \<and> py_lower format \<noteq> ''csv'' \<longrightarrow>
      response_of cfg env sql cloud format url w = Inl (HTTPException 400 INVALID_FORMAT_MSG [])
      \<and> events_of cfg env sql cloud format url w = [received url cloud])
   \<and> (py_lower format = ''json'' \<or> py_lower format = ''csv'' \<longrightarrow>
        (\<forall>d h. response_of cfg env sql cloud format url w \<noteq> Inl (HTTPException 400 d h)))
   \<and> sqlquery cfg env sql cloud [] url w = sqlquery cfg env sql cloud ''json'' url w"
proof (intro conjI impI allI)
  assume "format \<noteq> [] \<and> py_lower format \<noteq> ''json'' \<and> py_lower format \<noteq> ''csv''"
  then have rejected: "\<not> accepted_format format"
    by (simp add: accepted_format_iff)
  show "response_of cfg env sql cloud format url w = Inl (HTTPException 400 INVALID_FORMAT_MSG [])"
    by (simp add: response_of_def sqlquery_rejected[OF rejected])
  show "events_of cfg env sql cloud format url w = [received url cloud]"
    by (simp add: events_of_def sqlquery_events_rejected[OF rejected])
next
  fix d h
  assume "py_lower format = ''json'' \<or> py_lower format = ''csv''"
  then have "accepted_format format"
    by (auto simp add: accepted_format_iff)
  then show "response_of cfg env sql cloud format url w \<noteq> Inl (HTTPException 400 d h)"
    by (rule accepted_never_400)
next
  show "sqlquery cfg env sql cloud [] url w = sqlquery cfg env sql cloud ''json'' url w"
    by (simp add: sqlquery_def)
qed

theorem format_checked_before_the_pool_witness:
  "py_lower ''xml'' \<noteq> ''json'' \<and> py_lower ''xml'' \<noteq> ''csv'' \<and> db_pools sample_env ''nowhere'' = None
   \<and> response_of sample_config sample_env ''select 1'' ''nowhere'' ''xml'' ''/sqlquery/'' fresh_world
       = Inl (HTTPException 400 INVALID_FORMAT_MSG [])
   \<and> events_of sample_config sample_env ''select 1'' ''nowhere'' ''xml'' ''/sqlquery/'' fresh_world
       = [received ''/sqlquery/'' ''nowhere'']
   \<and> py_lower ''JSON'' = ''json''
   \<and> response_of sample_config sample_env ''select 1'' ''neon_postgres'' ''JSON'' ''/sqlquery/''
        fresh_world \<noteq> Inl (HTTPException 400 INVALID_FORMAT_MSG [])
   \<and> py_lower ''Csv'' = ''csv''
   \<and> response_of sample_config sample_env ''select 1'' ''neon_postgres'' ''Csv'' ''/sqlquery/''
        fresh_world \<noteq> Inl (HTTPException 400 INVALID_FORMAT_MSG [])"
proof -
  have bad: "''xml'' \<noteq> []" "py_lower ''xml'' \<noteq> ''json''" "py_lower ''xml'' \<noteq> ''csv''"
    and good: "py_lower ''JSON'' = ''json''" "py_lower ''Csv'' = ''csv''"
    by code_simp+
  have unknown: "db_pools sample_env ''nowhere'' = None"
    by (simp add: sample_env_def)
  from format_checked_before_the_pool[of "''xml''" sample_config sample_env "''select 1''"
         "''nowhere''" "''/sqlquery/''" fresh_world]
       format_checked_before_the_pool[of "''JSON''" sample_config sample_env "''select 1''"
         "''neon_postgres''" "''/sqlquery/''" fresh_world]
       format_checked_before_the_pool[of "''Csv''" sample_config sample_env "''select 1''"
         "''neon_postgres''" "''/sqlquery/''" fresh_world]
       bad good unknown
  show ?thesis by simp
qed

text \<open>
  The claim C9 as stated fails at the empty format, which is outside \<^verbatim>\<open>{json, csv}\<close> and is
  answered 200.
\<close>

theorem empty_format_is_served_as_json:
  "py_lower [] \<noteq> ''json'' \<and> py_lower [] \<noteq> ''csv''
   \<and> response_of sample_config sample_env ''select 1'' ''neon_postgres'' [] ''/sqlquery/'' fresh_world
       = Inr (JSONResponse 200
                (JObj [(''rows'', JList [JObj [(''x'', JInt 1)], JObj [(''x'', JInt 2)]]),
                       (''truncated'', JBool False)]) [])"
  by code_simp

text \<open>
  C10.  The test is a bare prefix test: whatever follows the keyword, also a letter that
  makes it the start of a longer word (\<^verbatim>\<open>withdraw\<close>, \<^verbatim>\<open>showcase\<close>), the statement is
  classified as data-returning and, on a connection, fetched and not executed.
\<close>

theorem keyword_inside_longer_word_is_data_returning:
  assumes "k \<in> set data_keywords" and "py_lower (py_strip sql) = k @ rest"
  shows "is_data_query sql \<and>
         (Acquire cloud c \<in> set (events_of cfg env sql cloud format url w) \<longrightarrow>
            Fetch c sql \<in> set (events_of cfg env sql cloud format url w)
            \<and> \<not> list_ex on_acknowledge_path (events_of cfg env sql cloud format url w))"
  using keyword_prefix_is_data_query[OF assms] routed_events[of cloud c cfg env sql format url w]
  by simp

theorem keyword_inside_longer_word_is_data_returning_witness:
  "''with'' \<in> set data_keywords
   \<and> py_lower (py_strip ''  WITHDRAW 100 FROM savings'') = ''with'' @ ''draw 100 from savings''
   \<and> is_data_query ''  WITHDRAW 100 FROM savings''
   \<and> Fetch 7 ''  WITHDRAW 100 FROM savings''
       \<in> set (events_of sample_config sample_env ''  WITHDRAW 100 FROM savings''
                ''neon_postgres'' ''json'' ''/sqlquery/'' fresh_world)
   \<and> \<not> list_ex on_acknowledge_path
         (events_of sample_config sample_env ''  WITHDRAW 100 FROM savings''
            ''neon_postgres'' ''json'' ''/sqlquery/'' fresh_world)"
proof -
  have keyword: "''with'' \<in> set data_keywords"
    by (simp add: data_keywords_def)
  have longer: "py_lower (py_strip ''  WITHDRAW 100 FROM savings'')
                  = ''with'' @ ''draw 100 from savings''"
    by code_simp
  have acquired:
    "Acquire ''neon_postgres'' 7
       \<in> set (events_of sample_config sample_env ''  WITHDRAW 100 FROM savings''
                ''neon_postgres'' ''json'' ''/sqlquery/'' fresh_world)"
    by code_simp
  from keyword_inside_longer_word_is_data_returning[OF keyword longer, of "''neon_postgres''" 7
         sample_config sample_env "''json''" "''/sqlquery/''" fresh_world]
       keyword longer acquired
  show ?thesis by blast
qed

end
